theory Spec2Isabelle
  imports Complex_Main "HOL-Library.Multiset"
begin

section \<open>Data model\<close>

text \<open>
  The documents of the two collections, as the schemas of \<^verbatim>\<open>models/Food.js\<close> and
  \<^verbatim>\<open>models/Notification.js\<close> declare them. An ObjectId is a natural number;
  a date is the integer count of milliseconds that \<^verbatim>\<open>Date.now()\<close> returns;
  a string is a list of code units below 256.

  Of the users collection the handlers below read only whether an id names an
  account: \<^verbatim>\<open>populate('donor')\<close> joins the account of a listing's donor, and
  leaves \<^verbatim>\<open>null\<close> when there is none. The other joins of \<^verbatim>\<open>populate\<close>
  and the pushes over Socket.IO decide no answer and write no document, and are left
  out.
\<close>

datatype status = Available | Claimed | Completed

text \<open>The \<^verbatim>\<open>enum\<close> of the \<^verbatim>\<open>status\<close> path: the three texts the schema accepts.\<close>

definition status_enum :: "string \<Rightarrow> status option" where
  "status_enum t =
     (if t = ''available'' then Some Available
      else if t = ''claimed'' then Some Claimed
      else if t = ''completed'' then Some Completed
      else None)"

record food =
  f_id :: nat
  name :: string
  description :: string
  photo :: string
  address :: string
  latitude :: "real option"
  longitude :: "real option"
  status :: status
  donor :: nat
  claimedBy :: "nat option"
  expiresAt :: int
  createdAt :: int
  updatedAt :: int

datatype ntype = claim_request | food_shared | claim_accepted | food_completed

record notification =
  n_id :: nat
  n_user :: nat
  n_type :: ntype
  n_message :: string
  n_food :: "nat option"
  n_fromUser :: "nat option"
  n_read :: bool
  n_createdAt :: int
  n_updatedAt :: int

text \<open>\<^verbatim>\<open>req.user\<close>, as the \<^verbatim>\<open>protect\<close> middleware leaves it: the authenticated caller.\<close>

record user =
  u_id :: nat
  u_name :: string

text \<open>
  The database: both collections in their natural order, the source of fresh
  ObjectIds, which never hands out the same id twice, and the ids of the user
  accounts. No route modelled here creates or deletes an account.
\<close>

record state =
  foods :: "food list"
  notifications :: "notification list"
  next_oid :: nat
  accounts :: "nat list"

text \<open>The database with the accounts \<open>us\<close> and no listing or notification yet.\<close>

definition init :: "nat list \<Rightarrow> state" where
  "init us = \<lparr>foods = [], notifications = [], next_oid = 0, accounts = us\<rparr>"

text \<open>A failed request: the HTTP status and the \<^verbatim>\<open>message\<close> of the JSON body.\<close>

type_synonym failure = "nat \<times> string"

section \<open>Schema: setters, casts and validators\<close>

text \<open>\<^verbatim>\<open>trim: true\<close> is \<^verbatim>\<open>String.prototype.trim\<close>: white space goes from both ends.\<close>

definition is_space :: "char \<Rightarrow> bool" where
  "is_space c = (c = CHR 0x09 \<or> c = CHR 0x0A \<or> c = CHR 0x0B \<or> c = CHR 0x0C \<or>
                 c = CHR 0x0D \<or> c = CHR 0x20 \<or> c = CHR 0xA0)"

definition trim :: "string \<Rightarrow> string" where
  "trim t = rev (dropWhile is_space (rev (dropWhile is_space t)))"

text \<open>
  A numeric form field, seen through the parser the route applies to it
  (\<^verbatim>\<open>parseFloat\<close> on creation, the schema's Number cast on update): the empty
  text, a text that parser reads as no number, or a text it reads as a number.
\<close>

datatype number_text = Blank | NotNumeric | Numeric real

datatype js_number = Null | NaN | Number real

text \<open>The Number cast: \<^verbatim>\<open>null\<close> stays, \<^verbatim>\<open>NaN\<close> is a CastError (\<open>None\<close>).\<close>

fun castNumber :: "js_number \<Rightarrow> real option option" where
  "castNumber Null = Some None"
| "castNumber NaN = None"
| "castNumber (Number r) = Some (Some r)"

text \<open>The Number cast of a text: the empty text is \<^verbatim>\<open>null\<close>.\<close>

fun castNumberText :: "number_text \<Rightarrow> real option option" where
  "castNumberText Blank = Some None"
| "castNumberText NotNumeric = None"
| "castNumberText (Numeric r) = Some (Some r)"

text \<open>
  The validators of the string paths, on the value the setter has trimmed:
  \<^verbatim>\<open>required\<close> refuses the empty string, \<^verbatim>\<open>maxlength\<close> bounds the length.
\<close>

definition valid_name :: "string \<Rightarrow> bool" where
  "valid_name t = (t \<noteq> [] \<and> length t \<le> 100)"

definition valid_description :: "string \<Rightarrow> bool" where
  "valid_description t = (length t \<le> 500)"

definition valid_address :: "string \<Rightarrow> bool" where
  "valid_address t = (t \<noteq> [])"

section \<open>Store operations\<close>

definition findById :: "food list \<Rightarrow> nat \<Rightarrow> food option" where
  "findById fs i = find (\<lambda>l. f_id l = i) fs"

text \<open>\<^verbatim>\<open>Food.find(filter).sort({ createdAt: -1 })\<close>.\<close>

definition find_sorted :: "(food \<Rightarrow> bool) \<Rightarrow> food list \<Rightarrow> food list" where
  "find_sorted P fs = sort_key (\<lambda>l. - createdAt l) (filter P fs)"

text \<open>\<^verbatim>\<open>food.deleteOne()\<close>: the document of that \<^verbatim>\<open>_id\<close> leaves the collection.\<close>

definition deleteOne :: "nat \<Rightarrow> food list \<Rightarrow> food list" where
  "deleteOne i fs = filter (\<lambda>l. f_id l \<noteq> i) fs"

text \<open>
  An update of the stored document of that \<^verbatim>\<open>_id\<close>: \<^verbatim>\<open>save()\<close> and
  \<^verbatim>\<open>findByIdAndUpdate\<close> both send the changed paths only.
\<close>

definition updateById :: "nat \<Rightarrow> (food \<Rightarrow> food) \<Rightarrow> food list \<Rightarrow> food list" where
  "updateById i g fs = map (\<lambda>l. if f_id l = i then g l else l) fs"

text \<open>
  \<^verbatim>\<open>Notification.create\<close>: a fresh id, \<^verbatim>\<open>read\<close> at its default, both
  timestamps at the clock. The required paths are always given by the callers below.
\<close>

definition Notification_create ::
  "nat \<Rightarrow> ntype \<Rightarrow> string \<Rightarrow> nat \<Rightarrow> nat \<Rightarrow> int \<Rightarrow> state \<Rightarrow> notification \<times> state" where
  "Notification_create usr ty msg fd frm now s =
     (let n = \<lparr>n_id = next_oid s, n_user = usr, n_type = ty, n_message = msg,
                n_food = Some fd, n_fromUser = Some frm, n_read = False,
                n_createdAt = now, n_updatedAt = now\<rparr>
      in (n, s\<lparr>notifications := notifications s @ [n], next_oid := Suc (next_oid s)\<rparr>))"

section \<open>Listing routes\<close>

subsection \<open>GET /api/food, /api/food/all, /api/food/:id\<close>

definition get_food :: "state \<Rightarrow> food list" where
  "get_food s = find_sorted (\<lambda>l. status l = Available) (foods s)"

definition get_food_all :: "state \<Rightarrow> food list" where
  "get_food_all s = find_sorted (\<lambda>l. True) (foods s)"

definition get_food_by_id :: "state \<Rightarrow> nat \<Rightarrow> failure + food" where
  "get_food_by_id s i =
     (case findById (foods s) i of
        None \<Rightarrow> Inl (404, ''Food listing not found'')
      | Some food \<Rightarrow> Inr food)"

subsection \<open>POST /api/food\<close>

text \<open>\<^verbatim>\<open>req.body\<close> and \<^verbatim>\<open>req.file\<close> of the multipart form; \<open>None\<close> is an absent field.\<close>

record food_body =
  b_name :: "string option"
  b_description :: "string option"
  b_address :: "string option"
  b_latitude :: "number_text option"
  b_longitude :: "number_text option"
  b_file :: "string option"

text \<open>A text is falsy when it is absent or empty.\<close>

definition text_or_empty :: "string option \<Rightarrow> string" where
  "text_or_empty x = (case x of None \<Rightarrow> [] | Some t \<Rightarrow> t)"

definition falsy :: "string option \<Rightarrow> bool" where
  "falsy x = (text_or_empty x = [])"

text \<open>\<^verbatim>\<open>latitude ? parseFloat(latitude) : null\<close>.\<close>

fun parse_coordinate :: "number_text option \<Rightarrow> js_number" where
  "parse_coordinate None = Null"
| "parse_coordinate (Some Blank) = Null"
| "parse_coordinate (Some NotNumeric) = NaN"
| "parse_coordinate (Some (Numeric r)) = Number r"

record food_data =
  d_name :: string
  d_description :: string
  d_address :: string
  d_latitude :: js_number
  d_longitude :: js_number
  d_donor :: nat
  d_photo :: "string option"

text \<open>
  \<^verbatim>\<open>Food.create(foodData)\<close>: the setters and casts run when the document is built,
  the defaults fill the paths that \<^verbatim>\<open>foodData\<close> does not give (\<open>now\<close> is the
  clock the default of \<^verbatim>\<open>expiresAt\<close> reads), the validators run before the
  insert, and the insert stamps both timestamps with the clock \<open>stamp\<close>. A cast or
  validation error rejects (\<open>None\<close>) and nothing is stored.
\<close>

definition Food_create :: "food_data \<Rightarrow> int \<Rightarrow> int \<Rightarrow> state \<Rightarrow> (food \<times> state) option" where
  "Food_create d now stamp s =
     (case (castNumber (d_latitude d), castNumber (d_longitude d)) of
        (Some lat, Some lon) \<Rightarrow>
          if valid_name (trim (d_name d)) \<and> valid_description (trim (d_description d)) \<and>
             valid_address (trim (d_address d))
          then
            let food = \<lparr>f_id = next_oid s,
                        name = trim (d_name d),
                        description = trim (d_description d),
                        photo = (case d_photo d of None \<Rightarrow> [] | Some p \<Rightarrow> p),
                        address = trim (d_address d),
                        latitude = lat,
                        longitude = lon,
                        status = Available,
                        donor = d_donor d,
                        claimedBy = None,
                        expiresAt = now + 24 * 60 * 60 * 1000,
                        createdAt = stamp,
                        updatedAt = stamp\<rparr>
            in Some (food, s\<lparr>foods := foods s @ [food], next_oid := Suc (next_oid s)\<rparr>)
          else None
      | _ \<Rightarrow> None)"

definition post_food ::
  "user \<Rightarrow> food_body \<Rightarrow> int \<Rightarrow> int \<Rightarrow> state \<Rightarrow> (failure + food) \<times> state" where
  "post_food usr b now stamp s =
     (if falsy (b_name b) \<or> falsy (b_address b)
      then (Inl (400, ''Please provide food name and address''), s)
      else
        let foodData = \<lparr>d_name = text_or_empty (b_name b),
                        d_description = text_or_empty (b_description b),
                        d_address = text_or_empty (b_address b),
                        d_latitude = parse_coordinate (b_latitude b),
                        d_longitude = parse_coordinate (b_longitude b),
                        d_donor = u_id usr,
                        d_photo = map_option (\<lambda>f. ''/uploads/'' @ f) (b_file b)\<rparr>
        in case Food_create foodData now stamp s of
             None \<Rightarrow> (Inl (500, ''Server error creating food listing''), s)
           | Some (food, s') \<Rightarrow> (Inr food, s'))"

subsection \<open>PUT /api/food/:id\<close>

text \<open>
  The request body, spread into the update as it is: every path of the schema can be in
  it, \<^verbatim>\<open>status\<close>, \<^verbatim>\<open>donor\<close> and \<^verbatim>\<open>claimedBy\<close> among them (for
  \<^verbatim>\<open>claimedBy\<close>, \<open>Some None\<close> is a JSON \<^verbatim>\<open>null\<close>). \<open>None\<close> is an absent
  field; \<open>p_file\<close> is \<^verbatim>\<open>req.file\<close>.
\<close>

record food_patch =
  p_name :: "string option"
  p_description :: "string option"
  p_photo :: "string option"
  p_address :: "string option"
  p_latitude :: "number_text option"
  p_longitude :: "number_text option"
  p_status :: "string option"
  p_donor :: "nat option"
  p_claimedBy :: "nat option option"
  p_expiresAt :: "int option"
  p_file :: "string option"

text \<open>
  The Date cast of a count of milliseconds: a JavaScript Date reaches 8640000000000000
  milliseconds either side of the epoch, and a count beyond that is an invalid date and
  a CastError (\<open>None\<close>).
\<close>

definition castDate :: "int \<Rightarrow> int option" where
  "castDate e =
     (if - 8640000000000000 \<le> e \<and> e \<le> 8640000000000000 then Some e else None)"

text \<open>
  \<^verbatim>\<open>runValidators: true\<close>: the casts and validators of the paths the update names.
\<close>

definition patch_valid :: "food_patch \<Rightarrow> bool" where
  "patch_valid p =
     ((case p_name p of None \<Rightarrow> True | Some t \<Rightarrow> valid_name (trim t)) \<and>
      (case p_description p of None \<Rightarrow> True | Some t \<Rightarrow> valid_description (trim t)) \<and>
      (case p_address p of None \<Rightarrow> True | Some t \<Rightarrow> valid_address (trim t)) \<and>
      (case p_latitude p of None \<Rightarrow> True | Some t \<Rightarrow> castNumberText t \<noteq> None) \<and>
      (case p_longitude p of None \<Rightarrow> True | Some t \<Rightarrow> castNumberText t \<noteq> None) \<and>
      (case p_status p of None \<Rightarrow> True | Some t \<Rightarrow> status_enum t \<noteq> None) \<and>
      (case p_expiresAt p of None \<Rightarrow> True | Some e \<Rightarrow> castDate e \<noteq> None))"

text \<open>The \<^verbatim>\<open>$set\<close> the update sends, with the timestamp of the update.\<close>

definition apply_patch :: "food_patch \<Rightarrow> int \<Rightarrow> food \<Rightarrow> food" where
  "apply_patch p now l =
     l\<lparr>name := (case p_name p of None \<Rightarrow> name l | Some t \<Rightarrow> trim t),
       description := (case p_description p of None \<Rightarrow> description l | Some t \<Rightarrow> trim t),
       photo := (case p_file p of
                   Some f \<Rightarrow> ''/uploads/'' @ f
                 | None \<Rightarrow> (case p_photo p of None \<Rightarrow> photo l | Some t \<Rightarrow> t)),
       address := (case p_address p of None \<Rightarrow> address l | Some t \<Rightarrow> trim t),
       latitude := (case p_latitude p of
                      None \<Rightarrow> latitude l
                    | Some t \<Rightarrow> (case castNumberText t of None \<Rightarrow> latitude l | Some v \<Rightarrow> v)),
       longitude := (case p_longitude p of
                       None \<Rightarrow> longitude l
                     | Some t \<Rightarrow> (case castNumberText t of None \<Rightarrow> longitude l | Some v \<Rightarrow> v)),
       status := (case p_status p of
                    None \<Rightarrow> status l
                  | Some t \<Rightarrow> (case status_enum t of None \<Rightarrow> status l | Some v \<Rightarrow> v)),
       donor := (case p_donor p of None \<Rightarrow> donor l | Some d \<Rightarrow> d),
       claimedBy := (case p_claimedBy p of None \<Rightarrow> claimedBy l | Some c \<Rightarrow> c),
       expiresAt := (case p_expiresAt p of
                       None \<Rightarrow> expiresAt l
                     | Some e \<Rightarrow> (case castDate e of None \<Rightarrow> expiresAt l | Some d \<Rightarrow> d)),
       updatedAt := now\<rparr>"

definition put_food ::
  "nat \<Rightarrow> user \<Rightarrow> food_patch \<Rightarrow> int \<Rightarrow> state \<Rightarrow> (failure + food) \<times> state" where
  "put_food i usr p now s =
     (case findById (foods s) i of
        None \<Rightarrow> (Inl (404, ''Food listing not found''), s)
      | Some food \<Rightarrow>
          if donor food \<noteq> u_id usr
          then (Inl (403, ''Not authorized to update this listing''), s)
          else if \<not> patch_valid p then (Inl (500, ''Server error''), s)
          else (Inr (apply_patch p now food),
                s\<lparr>foods := updateById i (apply_patch p now) (foods s)\<rparr>))"

subsection \<open>DELETE /api/food/:id\<close>

definition delete_food :: "nat \<Rightarrow> user \<Rightarrow> state \<Rightarrow> (failure + string) \<times> state" where
  "delete_food i usr s =
     (case findById (foods s) i of
        None \<Rightarrow> (Inl (404, ''Food listing not found''), s)
      | Some food \<Rightarrow>
          if donor food \<noteq> u_id usr
          then (Inl (403, ''Not authorized to delete this listing''), s)
          else (Inr ''Food listing removed'', s\<lparr>foods := deleteOne i (foods s)\<rparr>))"

subsection \<open>POST /api/food/:id/claim\<close>

definition quoted :: "string \<Rightarrow> string" where
  "quoted t = [CHR 0x22] @ t @ [CHR 0x22]"

text \<open>
  What \<^verbatim>\<open>food.save()\<close> writes after the handler has set \<^verbatim>\<open>status\<close> and
  \<^verbatim>\<open>claimedBy\<close>; \<open>now\<close> is the clock of the save.
\<close>

definition set_claimed :: "nat \<Rightarrow> int \<Rightarrow> food \<Rightarrow> food" where
  "set_claimed c now l = l\<lparr>status := Claimed, claimedBy := Some c, updatedAt := now\<rparr>"

text \<open>
  \<^verbatim>\<open>populate('donor', 'name avatar')\<close>: whether the join finds the account of the
  listing's donor. When it finds none \<^verbatim>\<open>food.donor\<close> is \<^verbatim>\<open>null\<close>, the read of
  \<^verbatim>\<open>food.donor._id\<close> throws, and the handler's \<^verbatim>\<open>catch\<close> answers 500.
\<close>

definition populate_donor :: "state \<Rightarrow> food \<Rightarrow> bool" where
  "populate_donor s food = (donor food \<in> set (accounts s))"

definition post_food_claim ::
  "nat \<Rightarrow> user \<Rightarrow> int \<Rightarrow> int \<Rightarrow> state \<Rightarrow> (failure + food) \<times> state" where
  "post_food_claim i usr now now' s =
     (case findById (foods s) i of
        None \<Rightarrow> (Inl (404, ''Food listing not found''), s)
      | Some food \<Rightarrow>
          if status food \<noteq> Available
          then (Inl (400, ''This food has already been claimed''), s)
          else if \<not> populate_donor s food
          then (Inl (500, ''Server error''), s)
          else if donor food = u_id usr
          then (Inl (400, ''You cannot claim your own food''), s)
          else
            let s1 = s\<lparr>foods := updateById i (set_claimed (u_id usr) now) (foods s)\<rparr>;
                (notification, s2) =
                   Notification_create (donor food) claim_request
                     (u_name usr @ '' claimed your '' @ quoted (name food))
                     (f_id food) (u_id usr) now' s1
            in (Inr (set_claimed (u_id usr) now food), s2))"

subsection \<open>PUT /api/food/:id/complete\<close>

definition set_completed :: "int \<Rightarrow> food \<Rightarrow> food" where
  "set_completed now l = l\<lparr>status := Completed, updatedAt := now\<rparr>"

definition put_food_complete ::
  "nat \<Rightarrow> user \<Rightarrow> int \<Rightarrow> int \<Rightarrow> state \<Rightarrow> (failure + food) \<times> state" where
  "put_food_complete i usr now now' s =
     (case findById (foods s) i of
        None \<Rightarrow> (Inl (404, ''Food listing not found''), s)
      | Some food \<Rightarrow>
          if donor food \<noteq> u_id usr
          then (Inl (403, ''Only the donor can mark as completed''), s)
          else if status food \<noteq> Claimed
          then (Inl (400, ''Food must be claimed before completing''), s)
          else
            let s1 = s\<lparr>foods := updateById i (set_completed now) (foods s)\<rparr>
            in (case claimedBy food of
                  None \<Rightarrow> (Inr (set_completed now food), s1)
                | Some c \<Rightarrow>
                    (let (notification, s2) =
                           Notification_create c food_completed
                             (''Pickup completed for '' @ quoted (name food))
                             (f_id food) (u_id usr) now' s1
                     in (Inr (set_completed now food), s2))))"

section \<open>Notification routes\<close>

definition countDocuments :: "nat \<Rightarrow> state \<Rightarrow> nat" where
  "countDocuments u s =
     length (filter (\<lambda>n. n_user n = u \<and> n_read n = False) (notifications s))"

definition get_notifications :: "user \<Rightarrow> state \<Rightarrow> notification list \<times> nat" where
  "get_notifications usr s =
     (take 50 (sort_key (\<lambda>n. - n_createdAt n)
                 (filter (\<lambda>n. n_user n = u_id usr) (notifications s))),
      countDocuments (u_id usr) s)"

text \<open>
  \<^verbatim>\<open>Notification.updateMany({ user, read: false }, { read: true })\<close>, which also
  stamps \<^verbatim>\<open>updatedAt\<close> on the documents it matches.
\<close>

definition put_notifications_read_all ::
  "user \<Rightarrow> int \<Rightarrow> state \<Rightarrow> (failure + string) \<times> state" where
  "put_notifications_read_all usr now s =
     (Inr ''All notifications marked as read'',
      s\<lparr>notifications :=
           map (\<lambda>n. if n_user n = u_id usr \<and> n_read n = False
                     then n\<lparr>n_read := True, n_updatedAt := now\<rparr> else n)
               (notifications s)\<rparr>)"

section \<open>Sequences of requests\<close>

datatype request =
    PostFood user food_body int int
  | PutFood nat user food_patch int
  | DeleteFood nat user
  | PostClaim nat user int int
  | PutComplete nat user int int
  | PutReadAll user int

fun handle :: "request \<Rightarrow> state \<Rightarrow> state" where
  "handle (PostFood usr b now stamp) s = snd (post_food usr b now stamp s)"
| "handle (PutFood i usr p now) s = snd (put_food i usr p now s)"
| "handle (DeleteFood i usr) s = snd (delete_food i usr s)"
| "handle (PostClaim i usr now now') s = snd (post_food_claim i usr now now' s)"
| "handle (PutComplete i usr now now') s = snd (put_food_complete i usr now now' s)"
| "handle (PutReadAll usr now) s = snd (put_notifications_read_all usr now s)"

definition run :: "request list \<Rightarrow> state \<Rightarrow> state" where
  "run rs s = fold handle rs s"

section \<open>Two claims in flight\<close>

text \<open>
  The claim handler suspends at each \<^verbatim>\<open>await\<close>, and another request can run in
  between. Its database accesses are the atomic steps: the read of \<^verbatim>\<open>findById\<close>
  with the join of the donor's account (\<open>Loaded\<close> keeps the document and whether the
  join found the account);
  the checks on the document it read and the write of \<^verbatim>\<open>save()\<close>, which sends
  the changed paths for that \<^verbatim>\<open>_id\<close> and rejects when no document has it; the
  insert of the notification, after which the response goes out.
\<close>

datatype claim_pc =
  Start | Loaded "(food \<times> bool) option" | Saved food | Done "failure + food"

fun claim_step :: "nat \<Rightarrow> user \<Rightarrow> int \<Rightarrow> int \<Rightarrow> claim_pc \<times> state \<Rightarrow> claim_pc \<times> state" where
  "claim_step i usr now now' (Start, s) =
     (Loaded (map_option (\<lambda>food. (food, populate_donor s food)) (findById (foods s) i)), s)"
| "claim_step i usr now now' (Loaded None, s) =
     (Done (Inl (404, ''Food listing not found'')), s)"
| "claim_step i usr now now' (Loaded (Some (food, joined)), s) =
     (if status food \<noteq> Available
      then (Done (Inl (400, ''This food has already been claimed'')), s)
      else if \<not> joined
      then (Done (Inl (500, ''Server error'')), s)
      else if donor food = u_id usr
      then (Done (Inl (400, ''You cannot claim your own food'')), s)
      else if findById (foods s) (f_id food) = None
      then (Done (Inl (500, ''Server error'')), s)
      else (Saved (set_claimed (u_id usr) now food),
            s\<lparr>foods := updateById (f_id food) (set_claimed (u_id usr) now) (foods s)\<rparr>))"
| "claim_step i usr now now' (Saved food, s) =
     (Done (Inr food),
      snd (Notification_create (donor food) claim_request
             (u_name usr @ '' claimed your '' @ quoted (name food))
             (f_id food) (u_id usr) now' s))"
| "claim_step i usr now now' (Done r, s) = (Done r, s)"

text \<open>
  Two claim requests on the listing \<open>i\<close>, by \<open>a\<close> and by \<open>b\<close>, each with its two
  clock readings, under a schedule: \<open>True\<close> lets the first request take its next
  step, \<open>False\<close> the second.
\<close>

fun interleave ::
  "nat \<Rightarrow> user \<times> int \<times> int \<Rightarrow> user \<times> int \<times> int \<Rightarrow> bool list \<Rightarrow>
   claim_pc \<times> claim_pc \<times> state \<Rightarrow> claim_pc \<times> claim_pc \<times> state" where
  "interleave i a b [] c = c"
| "interleave i (ua, ta, ta') b (True # sch) (pa, pb, s) =
     (case claim_step i ua ta ta' (pa, s) of
        (pa', s') \<Rightarrow> interleave i (ua, ta, ta') b sch (pa', pb, s'))"
| "interleave i a (ub, tb, tb') (False # sch) (pa, pb, s) =
     (case claim_step i ub tb tb' (pb, s) of
        (pb', s') \<Rightarrow> interleave i a (ub, tb, tb') sch (pa, pb', s'))"

section \<open>The lifecycle invariant\<close>

definition lifecycle_inv :: "food \<Rightarrow> bool" where
  "lifecycle_inv l = ((claimedBy l \<noteq> None) = (status l = Claimed \<or> status l = Completed))"

definition state_inv :: "state \<Rightarrow> bool" where
  "state_inv s = list_all lifecycle_inv (foods s)"

text \<open>
  The store's own guarantee about \<^verbatim>\<open>_id\<close>: no two documents of a collection
  share one, and every id in use has already been handed out.
\<close>

definition ids_wf :: "state \<Rightarrow> bool" where
  "ids_wf s =
     (distinct (map f_id (foods s)) \<and> list_all (\<lambda>i. i < next_oid s) (map f_id (foods s)))"

text \<open>An update whose body names \<^verbatim>\<open>status\<close> or \<^verbatim>\<open>claimedBy\<close>.\<close>

fun names_lifecycle :: "request \<Rightarrow> bool" where
  "names_lifecycle (PutFood i usr p now) = (p_status p \<noteq> None \<or> p_claimedBy p \<noteq> None)"
| "names_lifecycle _ = False"

text \<open>What the schema accepts of a creation form that names a food and an address.\<close>

definition body_valid :: "food_body \<Rightarrow> bool" where
  "body_valid b =
     (valid_name (trim (text_or_empty (b_name b))) \<and>
      valid_description (trim (text_or_empty (b_description b))) \<and>
      valid_address (trim (text_or_empty (b_address b))) \<and>
      b_latitude b \<noteq> Some NotNumeric \<and> b_longitude b \<noteq> Some NotNumeric)"

section \<open>Example data\<close>

text \<open>Three accounts, and the database that holds them and nothing else.\<close>

definition alice :: user where "alice = \<lparr>u_id = 1, u_name = ''Alice''\<rparr>"
definition bob :: user where "bob = \<lparr>u_id = 2, u_name = ''Bob''\<rparr>"
definition carol :: user where "carol = \<lparr>u_id = 3, u_name = ''Carol''\<rparr>"

definition s_empty :: state where
  "s_empty = init [1, 2, 3]"

definition bread_body :: food_body where
  "bread_body = \<lparr>b_name = Some ''Bread'', b_description = None,
                  b_address = Some ''12 Main St'', b_latitude = None,
                  b_longitude = None, b_file = None\<rparr>"

definition bread :: food where
  "bread = \<lparr>f_id = 0, name = ''Bread'', description = [], photo = [],
             address = ''12 Main St'', latitude = None, longitude = None,
             status = Available, donor = 1, claimedBy = None,
             expiresAt = 86401000, createdAt = 1001, updatedAt = 1001\<rparr>"

text \<open>The database after Alice has shared the bread at time 1000.\<close>

definition s_bread :: state where
  "s_bread = \<lparr>foods = [bread], notifications = [], next_oid = 1, accounts = [1, 2, 3]\<rparr>"

definition no_patch :: food_patch where
  "no_patch = \<lparr>p_name = None, p_description = None, p_photo = None, p_address = None,
                p_latitude = None, p_longitude = None, p_status = None, p_donor = None,
                p_claimedBy = None, p_expiresAt = None, p_file = None\<rparr>"

definition claimed_patch :: food_patch where
  "claimed_patch = no_patch\<lparr>p_status := Some ''claimed''\<rparr>"

text \<open>
  Alice shares the bread and then, as its donor, updates it with the body
  \<^verbatim>\<open>{ status: "claimed" }\<close>.
\<close>

definition share_then_update :: "request list" where
  "share_then_update = [PostFood alice bread_body 1000 1001, PutFood 0 alice claimed_patch 2000]"

text \<open>The database after Bob has claimed the bread at time 2000.\<close>

definition bread_claimed :: food where
  "bread_claimed = bread\<lparr>status := Claimed, claimedBy := Some 2, updatedAt := 2000\<rparr>"

definition bob_claim_note :: notification where
  "bob_claim_note =
     \<lparr>n_id = 1, n_user = 1, n_type = claim_request,
      n_message = ''Bob claimed your '' @ quoted ''Bread'',
      n_food = Some 0, n_fromUser = Some 2, n_read = False,
      n_createdAt = 2001, n_updatedAt = 2001\<rparr>"

definition s_claimed :: state where
  "s_claimed =
     \<lparr>foods = [bread_claimed], notifications = [bob_claim_note], next_oid = 2,
      accounts = [1, 2, 3]\<rparr>"

text \<open>The database after Alice has marked the pickup completed at time 3000.\<close>

definition pickup_note :: notification where
  "pickup_note =
     \<lparr>n_id = 2, n_user = 2, n_type = food_completed,
      n_message = ''Pickup completed for '' @ quoted ''Bread'',
      n_food = Some 0, n_fromUser = Some 1, n_read = False,
      n_createdAt = 3001, n_updatedAt = 3001\<rparr>"

definition s_completed :: state where
  "s_completed =
     \<lparr>foods = [bread_claimed\<lparr>status := Completed, updatedAt := 3000\<rparr>],
      notifications = [bob_claim_note, pickup_note], next_oid = 3, accounts = [1, 2, 3]\<rparr>"

text \<open>Three listings are shared, and the second one is claimed.\<close>

definition soup_body :: food_body where
  "soup_body = bread_body\<lparr>b_name := Some ''Soup'', b_address := Some ''1 Oak Rd''\<rparr>"

definition cake_body :: food_body where
  "cake_body = bread_body\<lparr>b_name := Some ''Cake''\<rparr>"

definition three_shares :: "request list" where
  "three_shares =
     [PostFood alice bread_body 1000 1001, PostFood bob soup_body 1500 1501,
      PostFood alice cake_body 1700 1701, PostClaim 1 carol 2000 2001]"

text \<open>
  A whole life of the bread: shared, renamed by its donor, claimed by Bob, completed,
  the notifications read, and the listing deleted.
\<close>

definition rename_patch :: food_patch where
  "rename_patch = no_patch\<lparr>p_name := Some '' Rye bread ''\<rparr>"

definition bread_life :: "request list" where
  "bread_life =
     [PostFood alice bread_body 1000 1001, PutFood 0 alice rename_patch 1500,
      PostClaim 0 bob 2000 2001, PutComplete 0 alice 3000 3001, PutReadAll alice 4000,
      DeleteFood 0 alice]"

text \<open>Bodies of updates by which a donor writes the lifecycle fields directly.\<close>

definition handover_patch :: food_patch where
  "handover_patch = no_patch\<lparr>p_status := Some ''claimed'', p_claimedBy := Some (Some 2)\<rparr>"

definition completed_patch :: food_patch where
  "completed_patch = no_patch\<lparr>p_status := Some ''completed''\<rparr>"

definition expired_patch :: food_patch where
  "expired_patch = no_patch\<lparr>p_status := Some ''expired''\<rparr>"

definition share_then_handover :: "request list" where
  "share_then_handover =
     [PostFood alice bread_body 1000 1001, PutFood 0 alice handover_patch 2000]"

text \<open>A creation form whose food name has 101 characters.\<close>

definition long_name_body :: food_body where
  "long_name_body = bread_body\<lparr>b_name := Some (replicate 101 CHR ''a'')\<rparr>"

text \<open>Creation forms with no food name, and with a food name of three spaces.\<close>

definition nameless_body :: food_body where
  "nameless_body = bread_body\<lparr>b_name := None\<rparr>"

definition blank_name_body :: food_body where
  "blank_name_body = bread_body\<lparr>b_name := Some ''   ''\<rparr>"

text \<open>
  Alice shares the bread and then, as its donor, updates it with the body
  \<^verbatim>\<open>{ donor: 9 }\<close>, an id that names no account.
\<close>

definition disown_patch :: food_patch where
  "disown_patch = no_patch\<lparr>p_donor := Some 9\<rparr>"

definition share_then_disown :: "request list" where
  "share_then_disown = [PostFood alice bread_body 1000 1001, PutFood 0 alice disown_patch 1500]"

text \<open>
  Bodies of updates with an expiry one millisecond beyond the range of a Date, and
  with a photo, both coordinates and an expiry.
\<close>

definition far_expiry_patch :: food_patch where
  "far_expiry_patch = no_patch\<lparr>p_expiresAt := Some 8640000000000001\<rparr>"

definition details_patch :: food_patch where
  "details_patch =
     no_patch\<lparr>p_photo := Some ''/uploads/rye.png'', p_latitude := Some (Numeric 52),
              p_longitude := Some Blank, p_expiresAt := Some 90000000\<rparr>"

section \<open>Facts about the store operations\<close>

lemma findById_Some_id: "findById fs i = Some l \<Longrightarrow> f_id l = i"
  unfolding findById_def by (induction fs) (auto split: if_splits)

lemma findById_updateById_same:
  "(\<And>l. f_id (g l) = f_id l) \<Longrightarrow> findById fs i = Some l \<Longrightarrow>
   findById (updateById i g fs) i = Some (g l)"
  unfolding findById_def updateById_def by (induction fs) (auto split: if_splits)

lemma findById_updateById_other:
  "(\<And>l. f_id (g l) = f_id l) \<Longrightarrow> j \<noteq> i \<Longrightarrow>
   findById (updateById i g fs) j = findById fs j"
  unfolding findById_def updateById_def by (induction fs) (auto split: if_splits)

lemma findById_deleteOne_same: "findById (deleteOne i fs) i = None"
  unfolding findById_def deleteOne_def by (induction fs) auto

lemma findById_deleteOne_other: "j \<noteq> i \<Longrightarrow> findById (deleteOne i fs) j = findById fs j"
  unfolding findById_def deleteOne_def by (induction fs) auto

lemma f_id_set_claimed: "f_id (set_claimed c now l) = f_id l"
  by (simp add: set_claimed_def)

lemma f_id_set_completed: "f_id (set_completed now l) = f_id l"
  by (simp add: set_completed_def)

lemma f_id_apply_patch: "f_id (apply_patch p now l) = f_id l"
  by (simp add: apply_patch_def)

lemma s_bread_reached: "post_food alice bread_body 1000 1001 s_empty = (Inr bread, s_bread)"
  by (simp add: post_food_def falsy_def text_or_empty_def bread_body_def Food_create_def
      trim_def is_space_def valid_name_def valid_description_def valid_address_def
      s_empty_def init_def alice_def bread_def s_bread_def Let_def)

lemma findById_init: "findById (foods (init us)) i = None"
  by (simp add: findById_def init_def)

lemma findById_s_empty: "findById (foods s_empty) i = None"
  by (simp add: s_empty_def findById_init)

lemma findById_s_bread: "findById (foods s_bread) 0 = Some bread"
  by (simp add: findById_def s_bread_def bread_def)

section \<open>The claim transition\<close>

lemma run_share_then_disown:
  "run share_then_disown s_empty =
     \<lparr>foods = [bread\<lparr>donor := 9, updatedAt := 1500\<rparr>], notifications = [], next_oid = 1,
      accounts = [1, 2, 3]\<rparr>"
  by (simp add: run_def share_then_disown_def s_bread_reached)
     (simp add: put_food_def findById_def s_bread_def bread_def alice_def patch_valid_def
        disown_patch_def no_patch_def apply_patch_def updateById_def)

text \<open>
  C1, as stated, fails. Alice shares the bread and then updates it with the body
  \<^verbatim>\<open>{ donor: 9 }\<close>, an id that names no account. The listing exists, is available,
  and its donor is not Bob; Bob's claim of it is answered 500 "Server error" and
  nothing is written, because the join of the donor's account finds none.
\<close>

theorem claim_without_donor_account_counterexample:
  "findById (foods (run share_then_disown s_empty)) 0 =
     Some (bread\<lparr>donor := 9, updatedAt := 1500\<rparr>) \<and>
   status (bread\<lparr>donor := 9, updatedAt := 1500\<rparr>) = Available \<and>
   donor (bread\<lparr>donor := 9, updatedAt := 1500\<rparr>) \<noteq> u_id bob \<and>
   post_food_claim 0 bob 2000 2001 (run share_then_disown s_empty) =
     (Inl (500, ''Server error''), run share_then_disown s_empty)"
  by (simp add: run_share_then_disown)
     (simp add: post_food_claim_def findById_def populate_donor_def bread_def bob_def)

text \<open>
  C1, amended. A claim of listing \<open>i\<close> by the caller answers 404 "Food listing not found"
  when no listing has that id; otherwise 400 "This food has already been claimed" (the
  specification's InvalidState) when the status is not available. Otherwise, when the
  donor of the listing has an account: it answers 400 "You cannot claim your own food"
  (the specification's Forbidden) when the caller is the donor; otherwise it answers the
  listing with status claimed and the caller as \<^verbatim>\<open>claimedBy\<close>, that listing is
  what the store then holds under \<open>i\<close>, every other listing is as before, and one
  notification has been added: a \<^verbatim>\<open>claim_request\<close> for the donor, unread,
  referencing the listing, with the caller as its actor.
\<close>

theorem claim_behaviour:
  "(findById (foods s) i = None \<longrightarrow>
      post_food_claim i usr now now' s = (Inl (404, ''Food listing not found''), s)) \<and>
   (\<forall>food. findById (foods s) i = Some food \<longrightarrow>
      (status food \<noteq> Available \<longrightarrow>
         post_food_claim i usr now now' s =
           (Inl (400, ''This food has already been claimed''), s)) \<and>
      (status food = Available \<and> donor food \<in> set (accounts s) \<and> donor food = u_id usr \<longrightarrow>
         post_food_claim i usr now now' s =
           (Inl (400, ''You cannot claim your own food''), s)) \<and>
      (status food = Available \<and> donor food \<in> set (accounts s) \<and> donor food \<noteq> u_id usr \<longrightarrow>
         (let food' = food\<lparr>status := Claimed, claimedBy := Some (u_id usr), updatedAt := now\<rparr>;
              s' = snd (post_food_claim i usr now now' s)
          in fst (post_food_claim i usr now now' s) = Inr food' \<and>
             findById (foods s') i = Some food' \<and>
             (\<forall>j. j \<noteq> i \<longrightarrow> findById (foods s') j = findById (foods s) j) \<and>
             (\<exists>n. notifications s' = notifications s @ [n] \<and>
                  n_user n = donor food \<and> n_type n = claim_request \<and>
                  n_food n = Some i \<and> n_fromUser n = Some (u_id usr) \<and>
                  n_read n = False))))"
proof (intro conjI impI allI)
  assume "findById (foods s) i = None"
  then show "post_food_claim i usr now now' s = (Inl (404, ''Food listing not found''), s)"
    by (simp add: post_food_claim_def)
next
  fix food
  assume "findById (foods s) i = Some food" "status food \<noteq> Available"
  then show "post_food_claim i usr now now' s =
      (Inl (400, ''This food has already been claimed''), s)"
    by (simp add: post_food_claim_def)
next
  fix food
  assume "findById (foods s) i = Some food"
    "status food = Available \<and> donor food \<in> set (accounts s) \<and> donor food = u_id usr"
  then show "post_food_claim i usr now now' s =
      (Inl (400, ''You cannot claim your own food''), s)"
    by (auto simp: post_food_claim_def populate_donor_def)
next
  fix food
  assume f: "findById (foods s) i = Some food"
    and ok: "status food = Available \<and> donor food \<in> set (accounts s) \<and> donor food \<noteq> u_id usr"
  have fid: "f_id food = i" using f by (rule findById_Some_id)
  have same: "findById (updateById i (set_claimed (u_id usr) now) (foods s)) i
                = Some (set_claimed (u_id usr) now food)"
    using f by (intro findById_updateById_same) (simp_all add: f_id_set_claimed)
  have other: "\<And>j. j \<noteq> i \<Longrightarrow>
      findById (updateById i (set_claimed (u_id usr) now) (foods s)) j = findById (foods s) j"
    by (intro findById_updateById_other) (simp_all add: f_id_set_claimed)
  show "let food' = food\<lparr>status := Claimed, claimedBy := Some (u_id usr), updatedAt := now\<rparr>;
            s' = snd (post_food_claim i usr now now' s)
        in fst (post_food_claim i usr now now' s) = Inr food' \<and>
           findById (foods s') i = Some food' \<and>
           (\<forall>j. j \<noteq> i \<longrightarrow> findById (foods s') j = findById (foods s) j) \<and>
           (\<exists>n. notifications s' = notifications s @ [n] \<and>
                n_user n = donor food \<and> n_type n = claim_request \<and>
                n_food n = Some i \<and> n_fromUser n = Some (u_id usr) \<and>
                n_read n = False)"
    using f ok fid same other
    by (simp add: post_food_claim_def populate_donor_def Notification_create_def Let_def)
       (simp add: set_claimed_def)
qed

theorem claim_behaviour_witness:
  "post_food_claim 0 bob 2000 2001 s_empty = (Inl (404, ''Food listing not found''), s_empty) \<and>
   post_food_claim 0 alice 2000 2001 s_bread =
     (Inl (400, ''You cannot claim your own food''), s_bread) \<and>
   fst (post_food_claim 0 bob 2000 2001 s_bread) =
     Inr (bread\<lparr>status := Claimed, claimedBy := Some 2, updatedAt := 2000\<rparr>) \<and>
   findById (foods (snd (post_food_claim 0 bob 2000 2001 s_bread))) 0 =
     Some (bread\<lparr>status := Claimed, claimedBy := Some 2, updatedAt := 2000\<rparr>) \<and>
   post_food_claim 0 carol 3000 3001 (snd (post_food_claim 0 bob 2000 2001 s_bread)) =
     (Inl (400, ''This food has already been claimed''),
      snd (post_food_claim 0 bob 2000 2001 s_bread))"
proof -
  have b: "status bread = Available" "donor bread = u_id alice" "donor bread \<noteq> u_id bob"
    "donor bread \<in> set (accounts s_bread)"
    by (simp_all add: bread_def alice_def bob_def s_bread_def)
  have c2: "u_id bob = 2" by (simp add: bob_def)
  note t1 = claim_behaviour [of s_empty 0 bob 2000 2001]
  note t2 = claim_behaviour [of s_bread 0 alice 2000 2001]
  note t3 = claim_behaviour [of s_bread 0 bob 2000 2001]
  note t4 = claim_behaviour [of "snd (post_food_claim 0 bob 2000 2001 s_bread)" 0 carol 3000 3001]
  have r1: "post_food_claim 0 bob 2000 2001 s_empty =
      (Inl (404, ''Food listing not found''), s_empty)"
    using t1 findById_s_empty by simp
  have r2: "post_food_claim 0 alice 2000 2001 s_bread =
     (Inl (400, ''You cannot claim your own food''), s_bread)"
    using t2 findById_s_bread b by simp
  have r3: "fst (post_food_claim 0 bob 2000 2001 s_bread) =
     Inr (bread\<lparr>status := Claimed, claimedBy := Some 2, updatedAt := 2000\<rparr>) \<and>
   findById (foods (snd (post_food_claim 0 bob 2000 2001 s_bread))) 0 =
     Some (bread\<lparr>status := Claimed, claimedBy := Some 2, updatedAt := 2000\<rparr>)"
    using t3 findById_s_bread b c2 by (simp add: Let_def)
  have r4: "post_food_claim 0 carol 3000 3001 (snd (post_food_claim 0 bob 2000 2001 s_bread)) =
     (Inl (400, ''This food has already been claimed''),
      snd (post_food_claim 0 bob 2000 2001 s_bread))"
    using t4 r3 by simp
  show ?thesis using r1 r2 r3 r4 by simp
qed

lemma run_share_then_update:
  "run share_then_update s_empty =
     \<lparr>foods = [bread\<lparr>status := Claimed, updatedAt := 2000\<rparr>], notifications = [], next_oid = 1,
      accounts = [1, 2, 3]\<rparr>"
  by (simp add: run_def share_then_update_def s_bread_reached)
     (simp add: put_food_def findById_def s_bread_def bread_def alice_def patch_valid_def
        claimed_patch_def no_patch_def status_enum_def apply_patch_def updateById_def)

section \<open>The completion transition\<close>

text \<open>
  C4, as stated, fails. Alice shares the bread and sets its status to claimed with an
  update, so no claimer is recorded. Her completion of it then passes all three
  checks and answers the completed listing, and no notification is created.
\<close>

theorem complete_without_claimer_counterexample:
  "fst (put_food_complete 0 alice 3000 3001 (run share_then_update s_empty)) =
     Inr (bread\<lparr>status := Completed, updatedAt := 3000\<rparr>) \<and>
   notifications (snd (put_food_complete 0 alice 3000 3001 (run share_then_update s_empty))) = []"
  by (simp add: run_share_then_update)
     (simp add: put_food_complete_def findById_def bread_def alice_def set_completed_def
        updateById_def)

text \<open>
  C4, amended. A completion of listing \<open>i\<close> by the caller answers 404 when no listing
  has that id; otherwise 403 "Only the donor can mark as completed" unless the caller
  is the donor; otherwise 400 "Food must be claimed before completing" unless the
  status is claimed; otherwise it answers the listing with status completed, the store
  holds that listing under \<open>i\<close> and every other listing as before, and a
  \<^verbatim>\<open>food_completed\<close> notification for the claimer, referencing the listing and the
  caller, is added exactly when the listing records a claimer: when it records none,
  the notifications are as before.
\<close>

theorem complete_behaviour:
  "(findById (foods s) i = None \<longrightarrow>
      put_food_complete i usr now now' s = (Inl (404, ''Food listing not found''), s)) \<and>
   (\<forall>food. findById (foods s) i = Some food \<longrightarrow>
      (donor food \<noteq> u_id usr \<longrightarrow>
         put_food_complete i usr now now' s =
           (Inl (403, ''Only the donor can mark as completed''), s)) \<and>
      (donor food = u_id usr \<and> status food \<noteq> Claimed \<longrightarrow>
         put_food_complete i usr now now' s =
           (Inl (400, ''Food must be claimed before completing''), s)) \<and>
      (donor food = u_id usr \<and> status food = Claimed \<longrightarrow>
         (let food' = food\<lparr>status := Completed, updatedAt := now\<rparr>;
              s' = snd (put_food_complete i usr now now' s)
          in fst (put_food_complete i usr now now' s) = Inr food' \<and>
             findById (foods s') i = Some food' \<and>
             (\<forall>j. j \<noteq> i \<longrightarrow> findById (foods s') j = findById (foods s) j) \<and>
             (\<forall>c. claimedBy food = Some c \<longrightarrow>
                (\<exists>n. notifications s' = notifications s @ [n] \<and>
                     n_user n = c \<and> n_type n = food_completed \<and>
                     n_food n = Some i \<and> n_fromUser n = Some (u_id usr) \<and>
                     n_read n = False)) \<and>
             (claimedBy food = None \<longrightarrow> notifications s' = notifications s))))"
proof (intro conjI impI allI)
  assume "findById (foods s) i = None"
  then show "put_food_complete i usr now now' s = (Inl (404, ''Food listing not found''), s)"
    by (simp add: put_food_complete_def)
next
  fix food
  assume "findById (foods s) i = Some food" "donor food \<noteq> u_id usr"
  then show "put_food_complete i usr now now' s =
      (Inl (403, ''Only the donor can mark as completed''), s)"
    by (simp add: put_food_complete_def)
next
  fix food
  assume "findById (foods s) i = Some food" "donor food = u_id usr \<and> status food \<noteq> Claimed"
  then show "put_food_complete i usr now now' s =
      (Inl (400, ''Food must be claimed before completing''), s)"
    by (simp add: put_food_complete_def)
next
  fix food
  assume f: "findById (foods s) i = Some food"
    and ok: "donor food = u_id usr \<and> status food = Claimed"
  have fid: "f_id food = i" using f by (rule findById_Some_id)
  have same: "findById (updateById i (set_completed now) (foods s)) i
                = Some (set_completed now food)"
    using f by (intro findById_updateById_same) (simp_all add: f_id_set_completed)
  have other: "\<And>j. j \<noteq> i \<Longrightarrow>
      findById (updateById i (set_completed now) (foods s)) j = findById (foods s) j"
    by (intro findById_updateById_other) (simp_all add: f_id_set_completed)
  show "let food' = food\<lparr>status := Completed, updatedAt := now\<rparr>;
            s' = snd (put_food_complete i usr now now' s)
        in fst (put_food_complete i usr now now' s) = Inr food' \<and>
           findById (foods s') i = Some food' \<and>
           (\<forall>j. j \<noteq> i \<longrightarrow> findById (foods s') j = findById (foods s) j) \<and>
           (\<forall>c. claimedBy food = Some c \<longrightarrow>
              (\<exists>n. notifications s' = notifications s @ [n] \<and>
                   n_user n = c \<and> n_type n = food_completed \<and>
                   n_food n = Some i \<and> n_fromUser n = Some (u_id usr) \<and>
                   n_read n = False)) \<and>
           (claimedBy food = None \<longrightarrow> notifications s' = notifications s)"
  proof (cases "claimedBy food")
    case None
    then show ?thesis
      using f ok fid same other
      by (simp add: put_food_complete_def Let_def) (simp add: set_completed_def)
  next
    case (Some c)
    then show ?thesis
      using f ok fid same other
      by (simp add: put_food_complete_def Notification_create_def Let_def)
         (simp add: set_completed_def)
  qed
qed

lemma s_claimed_reached:
  "post_food_claim 0 bob 2000 2001 s_bread = (Inr bread_claimed, s_claimed)"
  by (simp add: post_food_claim_def populate_donor_def findById_s_bread)
     (simp add: bread_def bob_def s_bread_def s_claimed_def bread_claimed_def
        bob_claim_note_def set_claimed_def updateById_def Notification_create_def Let_def)

lemma findById_s_claimed: "findById (foods s_claimed) 0 = Some bread_claimed"
  by (simp add: findById_def s_claimed_def bread_claimed_def bread_def)

lemma findById_share_then_update:
  "findById (foods (run share_then_update s_empty)) 0 =
     Some (bread\<lparr>status := Claimed, updatedAt := 2000\<rparr>)"
  by (simp add: run_share_then_update findById_def bread_def)

theorem complete_behaviour_witness:
  "put_food_complete 0 alice 3000 3001 s_empty = (Inl (404, ''Food listing not found''), s_empty) \<and>
   put_food_complete 0 bob 3000 3001 s_claimed =
     (Inl (403, ''Only the donor can mark as completed''), s_claimed) \<and>
   put_food_complete 0 alice 3000 3001 s_bread =
     (Inl (400, ''Food must be claimed before completing''), s_bread) \<and>
   fst (put_food_complete 0 alice 3000 3001 s_claimed) =
     Inr (bread_claimed\<lparr>status := Completed, updatedAt := 3000\<rparr>) \<and>
   (\<exists>n. notifications (snd (put_food_complete 0 alice 3000 3001 s_claimed)) =
           notifications s_claimed @ [n] \<and>
        n_user n = 2 \<and> n_type n = food_completed \<and> n_food n = Some 0 \<and>
        n_fromUser n = Some 1 \<and> n_read n = False) \<and>
   notifications (snd (put_food_complete 0 alice 3000 3001 (run share_then_update s_empty))) =
     notifications (run share_then_update s_empty)"
proof -
  have b: "status bread = Available" "donor bread = u_id alice"
    by (simp_all add: bread_def alice_def)
  have c: "status bread_claimed = Claimed" "donor bread_claimed = u_id alice"
    "donor bread_claimed \<noteq> u_id bob" "claimedBy bread_claimed = Some 2" "u_id alice = 1"
    by (simp_all add: bread_claimed_def bread_def alice_def bob_def)
  have d: "status (bread\<lparr>status := Claimed, updatedAt := 2000\<rparr>) = Claimed"
    "donor (bread\<lparr>status := Claimed, updatedAt := 2000\<rparr>) = u_id alice"
    "claimedBy (bread\<lparr>status := Claimed, updatedAt := 2000\<rparr>) = None"
    by (simp_all add: bread_def alice_def)
  have r1: "put_food_complete 0 alice 3000 3001 s_empty =
      (Inl (404, ''Food listing not found''), s_empty)"
    using complete_behaviour [of s_empty 0 alice 3000 3001] findById_s_empty by simp
  have r2: "put_food_complete 0 bob 3000 3001 s_claimed =
      (Inl (403, ''Only the donor can mark as completed''), s_claimed)"
    using complete_behaviour [of s_claimed 0 bob 3000 3001] findById_s_claimed c by simp
  have r3: "put_food_complete 0 alice 3000 3001 s_bread =
      (Inl (400, ''Food must be claimed before completing''), s_bread)"
    using complete_behaviour [of s_bread 0 alice 3000 3001] findById_s_bread b by simp
  have r4: "fst (put_food_complete 0 alice 3000 3001 s_claimed) =
      Inr (bread_claimed\<lparr>status := Completed, updatedAt := 3000\<rparr>) \<and>
    (\<exists>n. notifications (snd (put_food_complete 0 alice 3000 3001 s_claimed)) =
           notifications s_claimed @ [n] \<and>
        n_user n = 2 \<and> n_type n = food_completed \<and> n_food n = Some 0 \<and>
        n_fromUser n = Some 1 \<and> n_read n = False)"
    using complete_behaviour [of s_claimed 0 alice 3000 3001] findById_s_claimed c
    by (simp add: Let_def)
  have r5: "notifications (snd (put_food_complete 0 alice 3000 3001 (run share_then_update s_empty))) =
     notifications (run share_then_update s_empty)"
    using complete_behaviour [of "run share_then_update s_empty" 0 alice 3000 3001]
      findById_share_then_update d
    by (simp add: Let_def)
  show ?thesis using r1 r2 r3 r4 r5 by simp
qed

section \<open>Failed transitions\<close>

text \<open>
  C5. When a claim or a completion answers a failure, whichever it is, the database
  after the call is the database before it: every listing, with its status and
  claimer, is unchanged, and no notification has been created.
\<close>

theorem failed_transition_changes_nothing:
  "(fst (post_food_claim i usr now now' s) = Inl e \<longrightarrow>
      snd (post_food_claim i usr now now' s) = s) \<and>
   (fst (put_food_complete i usr now now' s) = Inl e \<longrightarrow>
      snd (put_food_complete i usr now now' s) = s)"
proof (intro conjI impI)
  assume "fst (post_food_claim i usr now now' s) = Inl e"
  then show "snd (post_food_claim i usr now now' s) = s"
    by (auto simp: post_food_claim_def Let_def split: option.splits if_splits prod.splits)
next
  assume "fst (put_food_complete i usr now now' s) = Inl e"
  then show "snd (put_food_complete i usr now now' s) = s"
    by (auto simp: put_food_complete_def Let_def split: option.splits if_splits prod.splits)
qed

lemma claim_own_fails:
  "fst (post_food_claim 0 alice 2000 2001 s_bread) = Inl (400, ''You cannot claim your own food'')"
  by (simp add: post_food_claim_def populate_donor_def findById_s_bread)
     (simp add: bread_def alice_def s_bread_def)

lemma complete_unclaimed_fails:
  "fst (put_food_complete 0 alice 3000 3001 s_bread) =
     Inl (400, ''Food must be claimed before completing'')"
  by (simp add: put_food_complete_def findById_s_bread) (simp add: bread_def alice_def)

lemma complete_by_other_fails:
  "fst (put_food_complete 0 bob 3000 3001 s_claimed) =
     Inl (403, ''Only the donor can mark as completed'')"
  by (simp add: put_food_complete_def findById_s_claimed)
     (simp add: bread_claimed_def bread_def bob_def)

theorem failed_transition_changes_nothing_witness:
  "snd (post_food_claim 0 alice 2000 2001 s_bread) = s_bread \<and>
   snd (put_food_complete 0 alice 3000 3001 s_bread) = s_bread \<and>
   snd (put_food_complete 0 bob 3000 3001 s_claimed) = s_claimed"
  using failed_transition_changes_nothing
          [of 0 alice 2000 2001 s_bread "(400, ''You cannot claim your own food'')"]
        failed_transition_changes_nothing
          [of 0 alice 3000 3001 s_bread "(400, ''Food must be claimed before completing'')"]
        failed_transition_changes_nothing
          [of 0 bob 3000 3001 s_claimed "(403, ''Only the donor can mark as completed'')"]
        claim_own_fails complete_unclaimed_fails complete_by_other_fails
  by simp

section \<open>Deletion\<close>

text \<open>
  C9. A deletion of listing \<open>i\<close> by the caller answers 404 when no listing has that id,
  and 403 "Not authorized to delete this listing" when the caller is not its donor.
  Otherwise it succeeds, whatever the status of the listing; after it a lookup of \<open>i\<close>
  answers 404, and every other listing is as before.
\<close>

theorem delete_behaviour:
  "(findById (foods s) i = None \<longrightarrow>
      delete_food i usr s = (Inl (404, ''Food listing not found''), s)) \<and>
   (\<forall>food. findById (foods s) i = Some food \<longrightarrow>
      (donor food \<noteq> u_id usr \<longrightarrow>
         delete_food i usr s = (Inl (403, ''Not authorized to delete this listing''), s)) \<and>
      (donor food = u_id usr \<longrightarrow>
         fst (delete_food i usr s) = Inr ''Food listing removed'' \<and>
         get_food_by_id (snd (delete_food i usr s)) i = Inl (404, ''Food listing not found'') \<and>
         (\<forall>j. j \<noteq> i \<longrightarrow>
            findById (foods (snd (delete_food i usr s))) j = findById (foods s) j) \<and>
         notifications (snd (delete_food i usr s)) = notifications s))"
  by (simp add: delete_food_def get_food_by_id_def findById_deleteOne_same
      findById_deleteOne_other)

theorem delete_behaviour_witness:
  "delete_food 0 alice s_empty = (Inl (404, ''Food listing not found''), s_empty) \<and>
   delete_food 0 bob s_claimed =
     (Inl (403, ''Not authorized to delete this listing''), s_claimed) \<and>
   fst (delete_food 0 alice s_claimed) = Inr ''Food listing removed'' \<and>
   get_food_by_id (snd (delete_food 0 alice s_claimed)) 0 =
     Inl (404, ''Food listing not found'') \<and>
   fst (delete_food 0 alice s_bread) = Inr ''Food listing removed'' \<and>
   get_food_by_id (snd (delete_food 0 alice s_bread)) 0 =
     Inl (404, ''Food listing not found'')"
proof -
  have b: "donor bread = u_id alice" "donor bread_claimed = u_id alice"
    "donor bread_claimed \<noteq> u_id bob"
    by (simp_all add: bread_claimed_def bread_def alice_def bob_def)
  have r1: "delete_food 0 alice s_empty = (Inl (404, ''Food listing not found''), s_empty)"
    using delete_behaviour [of s_empty 0 alice] findById_s_empty by simp
  have r2: "delete_food 0 bob s_claimed =
     (Inl (403, ''Not authorized to delete this listing''), s_claimed)"
    using delete_behaviour [of s_claimed 0 bob] findById_s_claimed b by simp
  have r3: "fst (delete_food 0 alice s_claimed) = Inr ''Food listing removed'' \<and>
     get_food_by_id (snd (delete_food 0 alice s_claimed)) 0 =
       Inl (404, ''Food listing not found'')"
    using delete_behaviour [of s_claimed 0 alice] findById_s_claimed b by simp
  have r4: "fst (delete_food 0 alice s_bread) = Inr ''Food listing removed'' \<and>
     get_food_by_id (snd (delete_food 0 alice s_bread)) 0 =
       Inl (404, ''Food listing not found'')"
    using delete_behaviour [of s_bread 0 alice] findById_s_bread b by simp
  show ?thesis using r1 r2 r3 r4 by simp
qed

section \<open>Notifications\<close>


lemma read_all_map_idem:
  "map (\<lambda>n. if n_user n = u \<and> n_read n = False
             then n\<lparr>n_read := True, n_updatedAt := t'\<rparr> else n)
     (map (\<lambda>n. if n_user n = u \<and> n_read n = False
                then n\<lparr>n_read := True, n_updatedAt := t\<rparr> else n) ns) =
   map (\<lambda>n. if n_user n = u \<and> n_read n = False
             then n\<lparr>n_read := True, n_updatedAt := t\<rparr> else n) ns"
  by (induction ns) auto

lemma read_all_others:
  "filter (\<lambda>n. n_user n \<noteq> u)
     (map (\<lambda>n. if n_user n = u \<and> n_read n = False
                then n\<lparr>n_read := True, n_updatedAt := t\<rparr> else n) ns) =
   filter (\<lambda>n. n_user n \<noteq> u) ns"
  by (induction ns) auto

lemma read_all_unread:
  "filter (\<lambda>n. n_user n = u \<and> n_read n = False)
     (map (\<lambda>n. if n_user n = u \<and> n_read n = False
                then n\<lparr>n_read := True, n_updatedAt := t\<rparr> else n) ns) = []"
  by (induction ns) auto

text \<open>
  C8. Marking all read always succeeds. After it the caller has no unread notification,
  every notification of the caller is read, the notifications of every other user are
  what they were, as are the listings, and marking all read again, at any later time,
  succeeds and leaves the database as it is.
\<close>

theorem read_all_behaviour:
  "(let s' = snd (put_notifications_read_all usr now s)
    in fst (put_notifications_read_all usr now s) = Inr ''All notifications marked as read'' \<and>
       countDocuments (u_id usr) s' = 0 \<and>
       (\<forall>n \<in> set (notifications s'). n_user n = u_id usr \<longrightarrow> n_read n) \<and>
       filter (\<lambda>n. n_user n \<noteq> u_id usr) (notifications s') =
         filter (\<lambda>n. n_user n \<noteq> u_id usr) (notifications s) \<and>
       length (notifications s') = length (notifications s) \<and>
       foods s' = foods s \<and>
       put_notifications_read_all usr later s' = (Inr ''All notifications marked as read'', s'))"
proof -
  let ?mark = "\<lambda>t n. if n_user n = u_id usr \<and> n_read n = False
                      then n\<lparr>n_read := True, n_updatedAt := t\<rparr> else n"
  let ?s' = "snd (put_notifications_read_all usr now s)"
  have ns: "notifications ?s' = map (?mark now) (notifications s)"
    by (simp add: put_notifications_read_all_def)
  have fs: "foods ?s' = foods s"
    by (simp add: put_notifications_read_all_def)
  have ok: "fst (put_notifications_read_all usr now s) = Inr ''All notifications marked as read''"
    by (simp add: put_notifications_read_all_def)
  have cnt: "countDocuments (u_id usr) ?s' = 0"
    unfolding countDocuments_def ns by (simp only: read_all_unread list.size)
  have all_read: "\<forall>n \<in> set (notifications ?s'). n_user n = u_id usr \<longrightarrow> n_read n"
    unfolding ns by auto
  have others: "filter (\<lambda>n. n_user n \<noteq> u_id usr) (notifications ?s') =
      filter (\<lambda>n. n_user n \<noteq> u_id usr) (notifications s)"
    unfolding ns by (rule read_all_others)
  have len: "length (notifications ?s') = length (notifications s)"
    unfolding ns by simp
  have again: "put_notifications_read_all usr later ?s' =
      (Inr ''All notifications marked as read'', ?s')"
  proof -
    have "map (?mark later) (notifications ?s') = notifications ?s'"
      unfolding ns by (rule read_all_map_idem)
    then have "?s'\<lparr>notifications := map (?mark later) (notifications ?s')\<rparr> = ?s'"
      by simp
    then show ?thesis
      unfolding put_notifications_read_all_def [of usr later] by simp
  qed
  show ?thesis
    unfolding Let_def using ok cnt all_read others len fs again by blast
qed

lemma s_completed_reached:
  "put_food_complete 0 alice 3000 3001 s_claimed =
     (Inr (bread_claimed\<lparr>status := Completed, updatedAt := 3000\<rparr>), s_completed)"
  by (simp add: put_food_complete_def findById_s_claimed)
     (simp add: bread_def alice_def s_claimed_def s_completed_def bread_claimed_def
        pickup_note_def set_completed_def updateById_def Notification_create_def Let_def)

theorem read_all_behaviour_witness:
  "countDocuments (u_id alice) s_completed = 1 \<and>
   countDocuments (u_id alice) (snd (put_notifications_read_all alice 4000 s_completed)) = 0 \<and>
   filter (\<lambda>n. n_user n \<noteq> u_id alice)
     (notifications (snd (put_notifications_read_all alice 4000 s_completed))) = [pickup_note] \<and>
   put_notifications_read_all alice 5000 (snd (put_notifications_read_all alice 4000 s_completed)) =
     (Inr ''All notifications marked as read'',
      snd (put_notifications_read_all alice 4000 s_completed))"
proof -
  have c: "countDocuments (u_id alice) s_completed = 1"
    by (simp add: countDocuments_def s_completed_def bob_claim_note_def pickup_note_def alice_def)
  have f: "filter (\<lambda>n. n_user n \<noteq> u_id alice) (notifications s_completed) = [pickup_note]"
    by (simp add: s_completed_def bob_claim_note_def pickup_note_def alice_def)
  show ?thesis
    using read_all_behaviour [of alice 4000 s_completed 5000] c f
    by (simp add: Let_def)
qed

section \<open>The available listings\<close>

lemma find_sorted_mset: "mset (find_sorted P fs) = mset (filter P fs)"
  by (simp add: find_sorted_def)

lemma find_sorted_set: "set (find_sorted P fs) = {l \<in> set fs. P l}"
  by (simp add: find_sorted_def)

lemma find_sorted_sorted:
  "sorted_wrt (\<lambda>a b. createdAt b \<le> createdAt a) (find_sorted P fs)"
proof -
  have "sorted (map (\<lambda>l. - createdAt l) (find_sorted P fs))"
    unfolding find_sorted_def by (rule sorted_sort_key)
  then show ?thesis by (simp add: sorted_map)
qed

text \<open>
  C7. After any sequence of requests, whatever the accounts, the answer to GET
  /api/food holds exactly the
  stored listings whose status is available, each as often as the store holds it, in
  descending order of \<^verbatim>\<open>createdAt\<close>, and none of its entries has another status.
\<close>

theorem get_food_available_sorted:
  "mset (get_food (run rs (init us))) =
     mset (filter (\<lambda>l. status l = Available) (foods (run rs (init us)))) \<and>
   sorted_wrt (\<lambda>a b. createdAt b \<le> createdAt a) (get_food (run rs (init us))) \<and>
   (\<forall>l \<in> set (get_food (run rs (init us))). status l = Available)"
  by (simp add: get_food_def find_sorted_mset find_sorted_sorted find_sorted_set)

lemma run_three_shares:
  "map (\<lambda>l. (name l, status l, createdAt l)) (foods (run three_shares s_empty)) =
     [(''Bread'', Available, 1001), (''Soup'', Claimed, 1501), (''Cake'', Available, 1701)]"
  by (simp add: run_def three_shares_def post_food_def falsy_def text_or_empty_def
      bread_body_def soup_body_def cake_body_def Food_create_def trim_def is_space_def
      valid_name_def valid_description_def valid_address_def s_empty_def init_def alice_def bob_def
      carol_def Let_def post_food_claim_def populate_donor_def findById_def updateById_def set_claimed_def
      Notification_create_def)

lemma get_food_three_shares:
  "map name (get_food (run three_shares s_empty)) = [''Cake'', ''Bread'']"
  by (simp add: get_food_def find_sorted_def
      run_def three_shares_def post_food_def falsy_def text_or_empty_def
      bread_body_def soup_body_def cake_body_def Food_create_def trim_def is_space_def
      valid_name_def valid_description_def valid_address_def s_empty_def init_def alice_def bob_def
      carol_def Let_def post_food_claim_def populate_donor_def findById_def updateById_def set_claimed_def
      Notification_create_def)

theorem get_food_available_sorted_witness:
  "sorted_wrt (\<lambda>a b. createdAt b \<le> createdAt a) (get_food (run three_shares s_empty)) \<and>
   list_all (\<lambda>l. status l = Available) (get_food (run three_shares s_empty)) \<and>
   map name (get_food (run three_shares s_empty)) = [''Cake'', ''Bread''] \<and>
   map (\<lambda>l. (name l, status l, createdAt l)) (foods (run three_shares s_empty)) =
     [(''Bread'', Available, 1001), (''Soup'', Claimed, 1501), (''Cake'', Available, 1701)]"
  using get_food_available_sorted [where rs = three_shares and us = "[1, 2, 3]",
      folded s_empty_def]
    get_food_three_shares run_three_shares
  by (simp add: list_all_iff)

section \<open>The lifecycle invariant over sequences of requests\<close>

lemma map_f_id_updateById:
  "(\<And>l. f_id (g l) = f_id l) \<Longrightarrow> map f_id (updateById i g fs) = map f_id fs"
  by (induction fs) (auto simp: updateById_def)

lemma list_all_updateById:
  "list_all P fs \<Longrightarrow> (\<And>l. P l \<Longrightarrow> P (g l)) \<Longrightarrow> list_all P (updateById i g fs)"
  by (induction fs) (auto simp: updateById_def)

lemma findById_unique:
  "distinct (map f_id fs) \<Longrightarrow> findById fs i = Some food \<Longrightarrow> l \<in> set fs \<Longrightarrow>
   f_id l = i \<Longrightarrow> l = food"
  unfolding findById_def by (induction fs) (auto split: if_splits)

lemma list_all_updateById_found:
  assumes "distinct (map f_id fs)" and "findById fs i = Some food"
    and "list_all P fs" and "P (g food)"
  shows "list_all P (updateById i g fs)"
proof -
  have "P (if f_id l = i then g l else l)" if "l \<in> set fs" for l
  proof (cases "f_id l = i")
    case True
    then have "l = food" using assms(1,2) that by (rule_tac findById_unique)
    then show ?thesis using True assms(4) by simp
  next
    case False
    then show ?thesis using assms(3) that by (simp add: list_all_iff)
  qed
  then have "list_all (\<lambda>l. P (if f_id l = i then g l else l)) fs"
    unfolding list_all_iff by blast
  then show ?thesis
    unfolding updateById_def by (simp only: list.pred_map comp_def)
qed

lemma ids_wf_init: "ids_wf (init us)"
  by (simp add: ids_wf_def s_empty_def init_def)

lemma state_inv_init: "state_inv (init us)"
  by (simp add: state_inv_def s_empty_def init_def)

lemma ids_wf_foods:
  "ids_wf s \<Longrightarrow> map f_id fs = map f_id (foods s) \<Longrightarrow> ids_wf (s\<lparr>foods := fs\<rparr>)"
  by (auto simp: ids_wf_def list_all_iff)

lemma ids_wf_post_food: "ids_wf s \<Longrightarrow> ids_wf (snd (post_food usr b now stamp s))"
  by (auto simp: post_food_def Food_create_def ids_wf_def list_all_iff Let_def
      split: option.splits prod.splits)

lemma ids_wf_put_food: "ids_wf s \<Longrightarrow> ids_wf (snd (put_food i usr p now s))"
  by (auto simp: put_food_def ids_wf_foods map_f_id_updateById f_id_apply_patch
      split: option.splits)

lemma ids_wf_delete_food: "ids_wf s \<Longrightarrow> ids_wf (snd (delete_food i usr s))"
  by (auto simp: delete_food_def deleteOne_def ids_wf_def list_all_iff distinct_map_filter
      split: option.splits)

lemma ids_wf_mono:
  assumes "ids_wf s" and "map f_id (foods s') = map f_id (foods s)"
    and "next_oid s \<le> next_oid s'"
  shows "ids_wf s'"
  using assms(1,3) unfolding ids_wf_def list_all_iff assms(2) by auto

lemma ids_wf_post_food_claim: "ids_wf s \<Longrightarrow> ids_wf (snd (post_food_claim i usr now now' s))"
  by (erule ids_wf_mono)
     (simp_all add: post_food_claim_def Notification_create_def Let_def
        map_f_id_updateById f_id_set_claimed split: option.splits)

lemma ids_wf_put_food_complete:
  "ids_wf s \<Longrightarrow> ids_wf (snd (put_food_complete i usr now now' s))"
  by (erule ids_wf_mono)
     (simp_all add: put_food_complete_def Notification_create_def Let_def
        map_f_id_updateById f_id_set_completed split: option.splits)

lemma ids_wf_read_all: "ids_wf s \<Longrightarrow> ids_wf (snd (put_notifications_read_all usr now s))"
  by (simp add: put_notifications_read_all_def ids_wf_def)

lemma ids_wf_handle: "ids_wf s \<Longrightarrow> ids_wf (handle r s)"
  by (cases r)
     (simp_all add: ids_wf_post_food ids_wf_put_food ids_wf_delete_food
        ids_wf_post_food_claim ids_wf_put_food_complete ids_wf_read_all)

lemma ids_wf_run: "ids_wf s \<Longrightarrow> ids_wf (run rs s)"
  unfolding run_def by (induction rs arbitrary: s) (simp_all add: ids_wf_handle)


lemma lifecycle_inv_set_claimed: "lifecycle_inv (set_claimed c now l)"
  by (simp add: lifecycle_inv_def set_claimed_def)

lemma lifecycle_inv_set_completed:
  "lifecycle_inv l \<Longrightarrow> status l = Claimed \<Longrightarrow> lifecycle_inv (set_completed now l)"
  by (simp add: lifecycle_inv_def set_completed_def)

lemma lifecycle_inv_apply_patch:
  "p_status p = None \<Longrightarrow> p_claimedBy p = None \<Longrightarrow>
   lifecycle_inv (apply_patch p now l) = lifecycle_inv l"
  by (simp add: lifecycle_inv_def apply_patch_def)

lemma foods_Notification_create:
  "foods (snd (Notification_create usr ty msg fd frm now s)) = foods s"
  by (simp add: Notification_create_def Let_def)

lemma state_inv_post_food: "state_inv s \<Longrightarrow> state_inv (snd (post_food usr b now stamp s))"
  by (auto simp: post_food_def Food_create_def state_inv_def lifecycle_inv_def Let_def
      split: option.splits prod.splits)

lemma state_inv_put_food:
  "state_inv s \<Longrightarrow> p_status p = None \<Longrightarrow> p_claimedBy p = None \<Longrightarrow>
   state_inv (snd (put_food i usr p now s))"
  by (auto simp: put_food_def state_inv_def lifecycle_inv_apply_patch
      intro: list_all_updateById split: option.splits)

lemma state_inv_delete_food: "state_inv s \<Longrightarrow> state_inv (snd (delete_food i usr s))"
  by (auto simp: delete_food_def deleteOne_def state_inv_def list_all_iff split: option.splits)

lemma state_inv_post_food_claim:
  "state_inv s \<Longrightarrow> state_inv (snd (post_food_claim i usr now now' s))"
  by (auto simp: post_food_claim_def state_inv_def Notification_create_def Let_def
      lifecycle_inv_set_claimed intro: list_all_updateById split: option.splits)

lemma state_inv_put_food_complete:
  assumes "state_inv s" and "ids_wf s"
  shows "state_inv (snd (put_food_complete i usr now now' s))"
proof (cases "findById (foods s) i")
  case None
  then show ?thesis using assms(1) by (simp add: put_food_complete_def)
next
  case (Some food)
  show ?thesis
  proof (cases "donor food = u_id usr \<and> status food = Claimed")
    case False
    then show ?thesis using Some assms(1) by (auto simp: put_food_complete_def)
  next
    case True
    have "food \<in> set (foods s)"
      using Some unfolding findById_def by (auto simp: find_Some_iff)
    then have "lifecycle_inv food"
      using assms(1) by (simp add: state_inv_def list_all_iff)
    then have "lifecycle_inv (set_completed now food)"
      using True by (simp add: lifecycle_inv_set_completed)
    then have upd: "list_all lifecycle_inv (updateById i (set_completed now) (foods s))"
      using assms Some
      by (intro list_all_updateById_found [where food = food])
         (simp_all add: ids_wf_def state_inv_def)
    show ?thesis
      using True Some upd
      by (simp add: put_food_complete_def state_inv_def Notification_create_def Let_def
          split: option.splits)
  qed
qed

lemma state_inv_read_all:
  "state_inv s \<Longrightarrow> state_inv (snd (put_notifications_read_all usr now s))"
  by (simp add: put_notifications_read_all_def state_inv_def)

lemma state_inv_handle:
  "state_inv s \<Longrightarrow> ids_wf s \<Longrightarrow> \<not> names_lifecycle r \<Longrightarrow> state_inv (handle r s)"
  by (cases r)
     (simp_all add: state_inv_post_food state_inv_put_food state_inv_delete_food
        state_inv_post_food_claim state_inv_put_food_complete state_inv_read_all)

lemma state_inv_run:
  "state_inv s \<Longrightarrow> ids_wf s \<Longrightarrow> list_all (\<lambda>r. \<not> names_lifecycle r) rs \<Longrightarrow>
   state_inv (run rs s)"
  unfolding run_def
  by (induction rs arbitrary: s) (simp_all add: state_inv_handle ids_wf_handle)

text \<open>
  C2, as stated, fails. Alice shares the bread and updates it with the body
  \<^verbatim>\<open>{ status: "claimed" }\<close>: the listing is then claimed and has no claimer.
\<close>

theorem lifecycle_invariant_counterexample: "\<not> state_inv (run share_then_update s_empty)"
  by (simp add: run_share_then_update state_inv_def lifecycle_inv_def bread_def)

text \<open>
  C2, amended. The invariant (a listing has a claimer exactly when its status is claimed
  or completed) holds of the empty database, whatever the accounts, and whenever it
  holds after some sequence
  of requests it still holds of every listing after any further creations, deletions,
  claims, completions, markings as read, and updates whose body names neither
  \<^verbatim>\<open>status\<close> nor \<^verbatim>\<open>claimedBy\<close>.
\<close>

theorem lifecycle_invariant_preserved:
  "state_inv (run [] (init us)) \<and>
   (state_inv (run before (init us)) \<and> list_all (\<lambda>r. \<not> names_lifecycle r) rs \<longrightarrow>
      state_inv (run rs (run before (init us))))"
  using state_inv_run [of "run before (init us)" rs] ids_wf_run [OF ids_wf_init, of before us]
  by (simp add: run_def state_inv_init)

lemma run_share_then_handover:
  "run share_then_handover s_empty =
     \<lparr>foods = [bread_claimed], notifications = [], next_oid = 1,
      accounts = [1, 2, 3]\<rparr>"
  by (simp add: run_def share_then_handover_def s_bread_reached)
     (simp add: put_food_def findById_def s_bread_def bread_def alice_def patch_valid_def
        handover_patch_def no_patch_def status_enum_def apply_patch_def updateById_def
        bread_claimed_def)

lemma run_bread_life: "foods (run bread_life s_empty) = []"
  by (simp add: run_def bread_life_def s_bread_reached)
     (simp add: put_food_def findById_def s_bread_def bread_def alice_def bob_def
        patch_valid_def rename_patch_def no_patch_def apply_patch_def updateById_def
        trim_def is_space_def valid_name_def post_food_claim_def populate_donor_def set_claimed_def
        Notification_create_def Let_def put_food_complete_def set_completed_def
        put_notifications_read_all_def delete_food_def deleteOne_def)

theorem lifecycle_invariant_preserved_witness:
  "list_all (\<lambda>r. \<not> names_lifecycle r) bread_life \<and>
   state_inv (run bread_life (run [] s_empty)) \<and>
   foods (run bread_life s_empty) = [] \<and>
   state_inv (run share_then_handover s_empty) \<and>
   state_inv (run [PutComplete 0 alice 3000 3001] (run share_then_handover s_empty))"
proof -
  have a: "list_all (\<lambda>r. \<not> names_lifecycle r) bread_life"
    by (simp add: bread_life_def rename_patch_def no_patch_def)
  have b: "state_inv (run share_then_handover s_empty)"
    by (simp add: run_share_then_handover state_inv_def lifecycle_inv_def bread_claimed_def
        bread_def)
  have c: "list_all (\<lambda>r. \<not> names_lifecycle r) [PutComplete 0 alice 3000 3001]"
    by simp
  show ?thesis
    using lifecycle_invariant_preserved
        [where us = "[1, 2, 3]" and before = "[]" and rs = bread_life, folded s_empty_def]
      lifecycle_invariant_preserved
        [where us = "[1, 2, 3]" and before = share_then_handover
           and rs = "[PutComplete 0 alice 3000 3001]", folded s_empty_def]
      a b c run_bread_life
    by simp
qed

section \<open>Creation\<close>

lemma castNumber_parse_coordinate:
  "(castNumber (parse_coordinate x) = None) = (x = Some NotNumeric)"
  by (cases x rule: parse_coordinate.cases) simp_all

lemma trim_replicate_a: "trim (replicate n CHR ''a'') = replicate n CHR ''a''"
  by (simp add: trim_def is_space_def)

text \<open>
  C6, as stated, fails. A form with a food name of 101 characters and an address names
  both fields, neither of them empty; the schema bounds the name at 100 characters, so
  the request is answered 500 and no listing is created.
\<close>

theorem create_long_name_counterexample:
  "\<not> falsy (b_name long_name_body) \<and> \<not> falsy (b_address long_name_body) \<and>
   post_food alice long_name_body 1000 1001 s_empty =
     (Inl (500, ''Server error creating food listing''), s_empty)"
  by (simp add: long_name_body_def bread_body_def falsy_def text_or_empty_def post_food_def
      Food_create_def trim_replicate_a valid_name_def)

text \<open>
  C6, amended. A creation answers 400 "Please provide food name and address" when the
  name or the address is missing or empty. Otherwise it answers 500 and stores nothing
  when the schema rejects the form: the name or the address is empty once trimmed, the
  trimmed name is longer than 100 or the trimmed description longer than 500
  characters, or a coordinate is a text that is no number. Otherwise it answers the
  listing it has appended to the store, under a fresh id, with status available, no
  claimer, the caller as donor, and \<^verbatim>\<open>expiresAt\<close> 24 hours after the clock reading
  \<open>now\<close> taken when the document is built; \<^verbatim>\<open>createdAt\<close> is the separate reading
  \<open>stamp\<close> of the insert.
\<close>

theorem create_behaviour:
  "(falsy (b_name b) \<or> falsy (b_address b) \<longrightarrow>
      post_food usr b now stamp s = (Inl (400, ''Please provide food name and address''), s)) \<and>
   (\<not> falsy (b_name b) \<and> \<not> falsy (b_address b) \<and> \<not> body_valid b \<longrightarrow>
      post_food usr b now stamp s = (Inl (500, ''Server error creating food listing''), s)) \<and>
   (\<not> falsy (b_name b) \<and> \<not> falsy (b_address b) \<and> body_valid b \<longrightarrow>
      (\<exists>food. post_food usr b now stamp s =
                (Inr food, s\<lparr>foods := foods s @ [food], next_oid := Suc (next_oid s)\<rparr>) \<and>
              f_id food = next_oid s \<and>
              name food = trim (text_or_empty (b_name b)) \<and>
              address food = trim (text_or_empty (b_address b)) \<and>
              status food = Available \<and> claimedBy food = None \<and>
              donor food = u_id usr \<and>
              expiresAt food = now + 24 * 60 * 60 * 1000 \<and>
              createdAt food = stamp))"
proof (intro conjI impI)
  assume "falsy (b_name b) \<or> falsy (b_address b)"
  then show "post_food usr b now stamp s =
      (Inl (400, ''Please provide food name and address''), s)"
    by (auto simp: post_food_def)
next
  assume a: "\<not> falsy (b_name b) \<and> \<not> falsy (b_address b) \<and> \<not> body_valid b"
  then show "post_food usr b now stamp s =
      (Inl (500, ''Server error creating food listing''), s)"
    using castNumber_parse_coordinate [of "b_latitude b"]
      castNumber_parse_coordinate [of "b_longitude b"]
    by (auto simp: post_food_def Food_create_def body_valid_def Let_def split: option.splits)
next
  assume a: "\<not> falsy (b_name b) \<and> \<not> falsy (b_address b) \<and> body_valid b"
  then obtain lat lon where
    "castNumber (parse_coordinate (b_latitude b)) = Some lat"
    "castNumber (parse_coordinate (b_longitude b)) = Some lon"
    using castNumber_parse_coordinate [of "b_latitude b"]
      castNumber_parse_coordinate [of "b_longitude b"]
    by (auto simp: body_valid_def)
  then show "\<exists>food. post_food usr b now stamp s =
                (Inr food, s\<lparr>foods := foods s @ [food], next_oid := Suc (next_oid s)\<rparr>) \<and>
              f_id food = next_oid s \<and>
              name food = trim (text_or_empty (b_name b)) \<and>
              address food = trim (text_or_empty (b_address b)) \<and>
              status food = Available \<and> claimedBy food = None \<and>
              donor food = u_id usr \<and>
              expiresAt food = now + 24 * 60 * 60 * 1000 \<and>
              createdAt food = stamp"
    using a by (simp add: post_food_def Food_create_def body_valid_def Let_def)
qed

theorem create_behaviour_witness:
  "post_food alice nameless_body 1000 1001 s_empty =
     (Inl (400, ''Please provide food name and address''), s_empty) \<and>
   post_food alice blank_name_body 1000 1001 s_empty =
     (Inl (500, ''Server error creating food listing''), s_empty) \<and>
   (\<exists>food. post_food alice bread_body 1000 1001 s_empty =
             (Inr food, s_empty\<lparr>foods := foods s_empty @ [food], next_oid := Suc (next_oid s_empty)\<rparr>) \<and>
           name food = ''Bread'' \<and> status food = Available \<and> claimedBy food = None \<and>
           donor food = 1 \<and> expiresAt food = 86401000)"
proof -
  have a: "falsy (b_name nameless_body)"
    by (simp add: nameless_body_def bread_body_def falsy_def text_or_empty_def)
  have b: "\<not> falsy (b_name blank_name_body) \<and> \<not> falsy (b_address blank_name_body) \<and>
           \<not> body_valid blank_name_body"
    by (simp add: blank_name_body_def bread_body_def falsy_def text_or_empty_def body_valid_def
        trim_def is_space_def valid_name_def)
  have c: "\<not> falsy (b_name bread_body) \<and> \<not> falsy (b_address bread_body) \<and>
           body_valid bread_body"
    by (simp add: bread_body_def falsy_def text_or_empty_def body_valid_def
        trim_def is_space_def valid_name_def valid_description_def valid_address_def)
  have d: "trim (text_or_empty (b_name bread_body)) = ''Bread''" "u_id alice = 1"
    by (simp_all add: bread_body_def text_or_empty_def trim_def is_space_def alice_def)
  have r1: "post_food alice nameless_body 1000 1001 s_empty =
      (Inl (400, ''Please provide food name and address''), s_empty)"
    using create_behaviour [of nameless_body alice 1000 1001 s_empty] a by simp
  have r2: "post_food alice blank_name_body 1000 1001 s_empty =
      (Inl (500, ''Server error creating food listing''), s_empty)"
    using create_behaviour [of blank_name_body alice 1000 1001 s_empty] b by simp
  have r3: "\<exists>food. post_food alice bread_body 1000 1001 s_empty =
             (Inr food, s_empty\<lparr>foods := foods s_empty @ [food], next_oid := Suc (next_oid s_empty)\<rparr>) \<and>
           name food = ''Bread'' \<and> status food = Available \<and> claimedBy food = None \<and>
           donor food = 1 \<and> expiresAt food = 86401000"
    using create_behaviour [of bread_body alice 1000 1001 s_empty] c d by auto
  show ?thesis using r1 r2 r3 by blast
qed

section \<open>Update\<close>

text \<open>
  C10, as stated, fails. Alice, the donor of the bread, sends an update whose body is
  \<^verbatim>\<open>{ status: "expired" }\<close>. The field is present in the body and is not written:
  the enum of the schema refuses it, the request is answered 500 and the listing is
  as before.
\<close>

theorem update_outside_enum_counterexample:
  "donor bread = u_id alice \<and> p_status expired_patch = Some ''expired'' \<and>
   put_food 0 alice expired_patch 2000 s_bread = (Inl (500, ''Server error''), s_bread)"
  by (simp add: put_food_def findById_s_bread)
     (simp add: bread_def alice_def expired_patch_def no_patch_def patch_valid_def
        status_enum_def)

lemma patch_valid_status: "patch_valid p \<Longrightarrow> p_status p = Some t \<Longrightarrow> status_enum t \<noteq> None"
  by (simp add: patch_valid_def)

lemma patch_valid_expiresAt:
  "patch_valid p \<Longrightarrow> p_expiresAt p = Some e \<Longrightarrow> castDate e = Some e"
  by (simp add: patch_valid_def castDate_def split: if_splits)

lemma patch_valid_latitude:
  "patch_valid p \<Longrightarrow> p_latitude p = Some t \<Longrightarrow> castNumberText t \<noteq> None"
  by (simp add: patch_valid_def)

lemma patch_valid_longitude:
  "patch_valid p \<Longrightarrow> p_longitude p = Some t \<Longrightarrow> castNumberText t \<noteq> None"
  by (simp add: patch_valid_def)

lemma status_apply_patch:
  "status (apply_patch p now l) =
     (case p_status p of
        None \<Rightarrow> status l
      | Some t \<Rightarrow> (case status_enum t of None \<Rightarrow> status l | Some v \<Rightarrow> v))"
  by (simp add: apply_patch_def)

lemma expiresAt_apply_patch:
  "expiresAt (apply_patch p now l) =
     (case p_expiresAt p of
        None \<Rightarrow> expiresAt l
      | Some e \<Rightarrow> (case castDate e of None \<Rightarrow> expiresAt l | Some d \<Rightarrow> d))"
  by (simp add: apply_patch_def)

lemma latitude_apply_patch:
  "latitude (apply_patch p now l) =
     (case p_latitude p of
        None \<Rightarrow> latitude l
      | Some t \<Rightarrow> (case castNumberText t of None \<Rightarrow> latitude l | Some v \<Rightarrow> v))"
  by (simp add: apply_patch_def)

lemma longitude_apply_patch:
  "longitude (apply_patch p now l) =
     (case p_longitude p of
        None \<Rightarrow> longitude l
      | Some t \<Rightarrow> (case castNumberText t of None \<Rightarrow> longitude l | Some v \<Rightarrow> v))"
  by (simp add: apply_patch_def)

text \<open>
  C10, amended. An update by the donor whose body passes the casts and validators of
  the schema answers the updated listing and stores it under \<open>i\<close>, whatever the status
  of the listing was, and leaves every other listing as it was. Every schema field
  present in the body is written: the status (one of the three texts of the enum), the
  claimer and the donor as given, the expiry as given (a date within the range of a
  Date), the name, the description and the address trimmed, each coordinate as the
  Number cast reads it (the empty text as \<^verbatim>\<open>null\<close>), and the photo as given unless
  a file is uploaded, whose path is then the photo. Every field absent from the body is
  kept, \<^verbatim>\<open>updatedAt\<close> is the time of the update, and the id and
  \<^verbatim>\<open>createdAt\<close> are kept. So a donor can set the status or the claimer directly.
  A body that fails a cast or a validator is answered 500 and nothing is written.
\<close>

theorem update_behaviour:
  "findById (foods s) i = Some food \<and> donor food = u_id usr \<longrightarrow>
     (\<not> patch_valid p \<longrightarrow> put_food i usr p now s = (Inl (500, ''Server error''), s)) \<and>
     (patch_valid p \<longrightarrow>
        (\<exists>food'. fst (put_food i usr p now s) = Inr food' \<and>
           findById (foods (snd (put_food i usr p now s))) i = Some food' \<and>
           (\<forall>j. j \<noteq> i \<longrightarrow>
              findById (foods (snd (put_food i usr p now s))) j = findById (foods s) j) \<and>
           notifications (snd (put_food i usr p now s)) = notifications s \<and>
           (\<forall>t. p_status p = Some t \<longrightarrow> status_enum t = Some (status food')) \<and>
           (p_status p = None \<longrightarrow> status food' = status food) \<and>
           (\<forall>c. p_claimedBy p = Some c \<longrightarrow> claimedBy food' = c) \<and>
           (p_claimedBy p = None \<longrightarrow> claimedBy food' = claimedBy food) \<and>
           (\<forall>d. p_donor p = Some d \<longrightarrow> donor food' = d) \<and>
           (p_donor p = None \<longrightarrow> donor food' = donor food) \<and>
           (\<forall>e. p_expiresAt p = Some e \<longrightarrow> castDate e = Some e \<and> expiresAt food' = e) \<and>
           (p_expiresAt p = None \<longrightarrow> expiresAt food' = expiresAt food) \<and>
           (\<forall>t. p_name p = Some t \<longrightarrow> name food' = trim t) \<and>
           (p_name p = None \<longrightarrow> name food' = name food) \<and>
           (\<forall>t. p_description p = Some t \<longrightarrow> description food' = trim t) \<and>
           (p_description p = None \<longrightarrow> description food' = description food) \<and>
           (\<forall>t. p_address p = Some t \<longrightarrow> address food' = trim t) \<and>
           (p_address p = None \<longrightarrow> address food' = address food) \<and>
           (\<forall>t. p_latitude p = Some t \<longrightarrow> castNumberText t = Some (latitude food')) \<and>
           (p_latitude p = None \<longrightarrow> latitude food' = latitude food) \<and>
           (\<forall>t. p_longitude p = Some t \<longrightarrow> castNumberText t = Some (longitude food')) \<and>
           (p_longitude p = None \<longrightarrow> longitude food' = longitude food) \<and>
           (\<forall>f. p_file p = Some f \<longrightarrow> photo food' = ''/uploads/'' @ f) \<and>
           (\<forall>t. p_file p = None \<and> p_photo p = Some t \<longrightarrow> photo food' = t) \<and>
           (p_file p = None \<and> p_photo p = None \<longrightarrow> photo food' = photo food) \<and>
           f_id food' = f_id food \<and> createdAt food' = createdAt food \<and>
           updatedAt food' = now))"
proof (intro impI conjI)
  assume a: "findById (foods s) i = Some food \<and> donor food = u_id usr" and "\<not> patch_valid p"
  then show "put_food i usr p now s = (Inl (500, ''Server error''), s)"
    by (simp add: put_food_def)
next
  assume a: "findById (foods s) i = Some food \<and> donor food = u_id usr" and v: "patch_valid p"
  let ?food' = "apply_patch p now food"
  let ?s' = "snd (put_food i usr p now s)"
  have res: "fst (put_food i usr p now s) = Inr ?food'"
    "foods ?s' = updateById i (apply_patch p now) (foods s)"
    "notifications ?s' = notifications s"
    using a v by (simp_all add: put_food_def)
  have same: "findById (foods ?s') i = Some ?food'"
    unfolding res(2) using a
    by (intro findById_updateById_same) (simp_all add: f_id_apply_patch)
  have other: "\<forall>j. j \<noteq> i \<longrightarrow> findById (foods ?s') j = findById (foods s) j"
    unfolding res(2) by (simp add: findById_updateById_other f_id_apply_patch)
  have st: "\<forall>t. p_status p = Some t \<longrightarrow> status_enum t = Some (status ?food')"
    using patch_valid_status [OF v] by (auto simp: status_apply_patch)
  have ex: "\<forall>e. p_expiresAt p = Some e \<longrightarrow> castDate e = Some e \<and> expiresAt ?food' = e"
    using patch_valid_expiresAt [OF v] by (auto simp: expiresAt_apply_patch)
  have lat: "\<forall>t. p_latitude p = Some t \<longrightarrow> castNumberText t = Some (latitude ?food')"
    using patch_valid_latitude [OF v] by (auto simp: latitude_apply_patch)
  have lon: "\<forall>t. p_longitude p = Some t \<longrightarrow> castNumberText t = Some (longitude ?food')"
    using patch_valid_longitude [OF v] by (auto simp: longitude_apply_patch)
  have fields:
    "p_status p = None \<longrightarrow> status ?food' = status food"
    "\<forall>c. p_claimedBy p = Some c \<longrightarrow> claimedBy ?food' = c"
    "p_claimedBy p = None \<longrightarrow> claimedBy ?food' = claimedBy food"
    "\<forall>d. p_donor p = Some d \<longrightarrow> donor ?food' = d"
    "p_donor p = None \<longrightarrow> donor ?food' = donor food"
    "p_expiresAt p = None \<longrightarrow> expiresAt ?food' = expiresAt food"
    "\<forall>t. p_name p = Some t \<longrightarrow> name ?food' = trim t"
    "p_name p = None \<longrightarrow> name ?food' = name food"
    "\<forall>t. p_description p = Some t \<longrightarrow> description ?food' = trim t"
    "p_description p = None \<longrightarrow> description ?food' = description food"
    "\<forall>t. p_address p = Some t \<longrightarrow> address ?food' = trim t"
    "p_address p = None \<longrightarrow> address ?food' = address food"
    "p_latitude p = None \<longrightarrow> latitude ?food' = latitude food"
    "p_longitude p = None \<longrightarrow> longitude ?food' = longitude food"
    "\<forall>f. p_file p = Some f \<longrightarrow> photo ?food' = ''/uploads/'' @ f"
    "\<forall>t. p_file p = None \<and> p_photo p = Some t \<longrightarrow> photo ?food' = t"
    "p_file p = None \<and> p_photo p = None \<longrightarrow> photo ?food' = photo food"
    "f_id ?food' = f_id food"
    "createdAt ?food' = createdAt food"
    "updatedAt ?food' = now"
    by (simp_all add: apply_patch_def)
  show "\<exists>food'. fst (put_food i usr p now s) = Inr food' \<and>
           findById (foods (snd (put_food i usr p now s))) i = Some food' \<and>
           (\<forall>j. j \<noteq> i \<longrightarrow>
              findById (foods (snd (put_food i usr p now s))) j = findById (foods s) j) \<and>
           notifications (snd (put_food i usr p now s)) = notifications s \<and>
           (\<forall>t. p_status p = Some t \<longrightarrow> status_enum t = Some (status food')) \<and>
           (p_status p = None \<longrightarrow> status food' = status food) \<and>
           (\<forall>c. p_claimedBy p = Some c \<longrightarrow> claimedBy food' = c) \<and>
           (p_claimedBy p = None \<longrightarrow> claimedBy food' = claimedBy food) \<and>
           (\<forall>d. p_donor p = Some d \<longrightarrow> donor food' = d) \<and>
           (p_donor p = None \<longrightarrow> donor food' = donor food) \<and>
           (\<forall>e. p_expiresAt p = Some e \<longrightarrow> castDate e = Some e \<and> expiresAt food' = e) \<and>
           (p_expiresAt p = None \<longrightarrow> expiresAt food' = expiresAt food) \<and>
           (\<forall>t. p_name p = Some t \<longrightarrow> name food' = trim t) \<and>
           (p_name p = None \<longrightarrow> name food' = name food) \<and>
           (\<forall>t. p_description p = Some t \<longrightarrow> description food' = trim t) \<and>
           (p_description p = None \<longrightarrow> description food' = description food) \<and>
           (\<forall>t. p_address p = Some t \<longrightarrow> address food' = trim t) \<and>
           (p_address p = None \<longrightarrow> address food' = address food) \<and>
           (\<forall>t. p_latitude p = Some t \<longrightarrow> castNumberText t = Some (latitude food')) \<and>
           (p_latitude p = None \<longrightarrow> latitude food' = latitude food) \<and>
           (\<forall>t. p_longitude p = Some t \<longrightarrow> castNumberText t = Some (longitude food')) \<and>
           (p_longitude p = None \<longrightarrow> longitude food' = longitude food) \<and>
           (\<forall>f. p_file p = Some f \<longrightarrow> photo food' = ''/uploads/'' @ f) \<and>
           (\<forall>t. p_file p = None \<and> p_photo p = Some t \<longrightarrow> photo food' = t) \<and>
           (p_file p = None \<and> p_photo p = None \<longrightarrow> photo food' = photo food) \<and>
           f_id food' = f_id food \<and> createdAt food' = createdAt food \<and>
           updatedAt food' = now"
  proof (intro exI [of _ ?food'] conjI)
  qed (fact res(1) same other res(3) st ex lat lon fields)+
qed

theorem update_behaviour_witness:
  "put_food 0 alice expired_patch 2000 s_bread = (Inl (500, ''Server error''), s_bread) \<and>
   put_food 0 alice far_expiry_patch 2000 s_bread = (Inl (500, ''Server error''), s_bread) \<and>
   (\<exists>food'. fst (put_food 0 alice completed_patch 2000 s_bread) = Inr food' \<and>
       findById (foods (snd (put_food 0 alice completed_patch 2000 s_bread))) 0 = Some food' \<and>
       status food' = Completed \<and> claimedBy food' = None) \<and>
   (\<exists>food'. fst (put_food 0 alice handover_patch 2000 s_bread) = Inr food' \<and>
       status food' = Claimed \<and> claimedBy food' = Some 2) \<and>
   (\<exists>food'. fst (put_food 0 alice rename_patch 2000 s_bread) = Inr food' \<and>
       name food' = ''Rye bread'' \<and> status food' = Available) \<and>
   (\<exists>food'. fst (put_food 0 alice details_patch 2000 s_bread) = Inr food' \<and>
       photo food' = ''/uploads/rye.png'' \<and> latitude food' = Some 52 \<and>
       longitude food' = None \<and> expiresAt food' = 90000000 \<and> name food' = ''Bread'')"
proof -
  have f: "findById (foods s_bread) 0 = Some bread \<and> donor bread = u_id alice"
    by (simp add: findById_s_bread) (simp add: bread_def alice_def)
  have b: "status bread = Available" "claimedBy bread = None" "name bread = ''Bread''"
    by (simp_all add: bread_def)
  have v: "\<not> patch_valid expired_patch" "\<not> patch_valid far_expiry_patch"
    "patch_valid completed_patch" "patch_valid handover_patch" "patch_valid rename_patch"
    "patch_valid details_patch"
    by (simp_all add: patch_valid_def expired_patch_def far_expiry_patch_def
        completed_patch_def handover_patch_def rename_patch_def details_patch_def
        no_patch_def status_enum_def castDate_def trim_def is_space_def valid_name_def)
  have p: "p_status completed_patch = Some ''completed''" "p_claimedBy completed_patch = None"
    "p_status handover_patch = Some ''claimed''" "p_claimedBy handover_patch = Some (Some 2)"
    "p_status rename_patch = None" "p_name rename_patch = Some '' Rye bread ''"
    by (simp_all add: completed_patch_def handover_patch_def rename_patch_def no_patch_def)
  have q: "p_photo details_patch = Some ''/uploads/rye.png''" "p_file details_patch = None"
    "p_latitude details_patch = Some (Numeric 52)" "p_longitude details_patch = Some Blank"
    "p_expiresAt details_patch = Some 90000000" "p_name details_patch = None"
    by (simp_all add: details_patch_def no_patch_def)
  have e: "status_enum ''completed'' = Some Completed" "status_enum ''claimed'' = Some Claimed"
    "trim '' Rye bread '' = ''Rye bread''"
    by (simp_all add: status_enum_def trim_def is_space_def)
  have r1: "put_food 0 alice expired_patch 2000 s_bread = (Inl (500, ''Server error''), s_bread)"
    using update_behaviour [of s_bread 0 bread alice expired_patch 2000] f v by simp
  have r2: "put_food 0 alice far_expiry_patch 2000 s_bread =
      (Inl (500, ''Server error''), s_bread)"
    using update_behaviour [of s_bread 0 bread alice far_expiry_patch 2000] f v by simp
  have r3: "\<exists>food'. fst (put_food 0 alice completed_patch 2000 s_bread) = Inr food' \<and>
       findById (foods (snd (put_food 0 alice completed_patch 2000 s_bread))) 0 = Some food' \<and>
       status food' = Completed \<and> claimedBy food' = None"
  proof -
    from update_behaviour [THEN mp, OF f, THEN conjunct2, THEN mp, OF v(3), of 2000]
    obtain food' where h:
      "fst (put_food 0 alice completed_patch 2000 s_bread) = Inr food'"
      "findById (foods (snd (put_food 0 alice completed_patch 2000 s_bread))) 0 = Some food'"
      "\<forall>t. p_status completed_patch = Some t \<longrightarrow> status_enum t = Some (status food')"
      "p_claimedBy completed_patch = None \<longrightarrow> claimedBy food' = claimedBy bread"
      by (elim exE conjE) (rule that, assumption+)
    from h(3,4) p e b have "status food' = Completed" "claimedBy food' = None" by simp_all
    with h(1,2) show ?thesis by blast
  qed
  have r4: "\<exists>food'. fst (put_food 0 alice handover_patch 2000 s_bread) = Inr food' \<and>
       status food' = Claimed \<and> claimedBy food' = Some 2"
  proof -
    from update_behaviour [THEN mp, OF f, THEN conjunct2, THEN mp, OF v(4), of 2000]
    obtain food' where h:
      "fst (put_food 0 alice handover_patch 2000 s_bread) = Inr food'"
      "\<forall>t. p_status handover_patch = Some t \<longrightarrow> status_enum t = Some (status food')"
      "\<forall>c. p_claimedBy handover_patch = Some c \<longrightarrow> claimedBy food' = c"
      by (elim exE conjE) (rule that, assumption+)
    from h(2,3) p e have "status food' = Claimed" "claimedBy food' = Some 2" by simp_all
    with h(1) show ?thesis by blast
  qed
  have r5: "\<exists>food'. fst (put_food 0 alice rename_patch 2000 s_bread) = Inr food' \<and>
       name food' = ''Rye bread'' \<and> status food' = Available"
  proof -
    from update_behaviour [THEN mp, OF f, THEN conjunct2, THEN mp, OF v(5), of 2000]
    obtain food' where h:
      "fst (put_food 0 alice rename_patch 2000 s_bread) = Inr food'"
      "p_status rename_patch = None \<longrightarrow> status food' = status bread"
      "\<forall>t. p_name rename_patch = Some t \<longrightarrow> name food' = trim t"
      by (elim exE conjE) (rule that, assumption+)
    from h(2,3) p e b have "name food' = ''Rye bread''" "status food' = Available" by simp_all
    with h(1) show ?thesis by blast
  qed
  have r6: "\<exists>food'. fst (put_food 0 alice details_patch 2000 s_bread) = Inr food' \<and>
       photo food' = ''/uploads/rye.png'' \<and> latitude food' = Some 52 \<and>
       longitude food' = None \<and> expiresAt food' = 90000000 \<and> name food' = ''Bread''"
  proof -
    from update_behaviour [THEN mp, OF f, THEN conjunct2, THEN mp, OF v(6), of 2000]
    obtain food' where h:
      "fst (put_food 0 alice details_patch 2000 s_bread) = Inr food'"
      "\<forall>e. p_expiresAt details_patch = Some e \<longrightarrow> castDate e = Some e \<and> expiresAt food' = e"
      "p_name details_patch = None \<longrightarrow> name food' = name bread"
      "\<forall>t. p_latitude details_patch = Some t \<longrightarrow> castNumberText t = Some (latitude food')"
      "\<forall>t. p_longitude details_patch = Some t \<longrightarrow> castNumberText t = Some (longitude food')"
      "\<forall>t. p_file details_patch = None \<and> p_photo details_patch = Some t \<longrightarrow> photo food' = t"
      by (elim exE conjE) (rule that, assumption+)
    from h(2-6) q b have "photo food' = ''/uploads/rye.png''" "latitude food' = Some 52"
      "longitude food' = None" "expiresAt food' = 90000000" "name food' = ''Bread''"
      by simp_all
    with h(1) show ?thesis by blast
  qed
  show ?thesis using r1 r2 r3 r4 r5 r6 by blast
qed

section \<open>Two concurrent claims\<close>

text \<open>
  Run without interruption, the three steps of a claim are the claim handler.
\<close>

lemma claim_steps_are_handler:
  "claim_step i usr now now' (claim_step i usr now now' (claim_step i usr now now' (Start, s))) =
     (Done (fst (post_food_claim i usr now now' s)), snd (post_food_claim i usr now now' s))"
proof (cases "findById (foods s) i")
  case None
  then show ?thesis by (simp add: post_food_claim_def)
next
  case (Some food)
  then have fid: "f_id food = i" by (rule findById_Some_id)
  show ?thesis
    using Some fid
    by (simp add: post_food_claim_def Let_def Notification_create_def set_claimed_def)
qed

text \<open>
  When the first claim has finished before the second one starts, the second one is
  refused: the check on the status does its work as long as nothing runs between the
  read and the save.
\<close>

lemma claims_in_turn:
  assumes "findById (foods s) i = Some food" and "status food = Available"
    and "donor food \<in> set (accounts s)" and "donor food \<noteq> u_id a"
  shows "\<exists>s'. interleave i (a, ta, ta') (b, tb, tb') [True, True, True, False, False, False]
                 (Start, Start, s) =
               (Done (Inr (set_claimed (u_id a) ta food)),
                Done (Inl (400, ''This food has already been claimed'')), s') \<and>
              findById (foods s') i = Some (set_claimed (u_id a) ta food) \<and>
              length (notifications s') = length (notifications s) + 1"
proof -
  have fid: "f_id food = i" using assms(1) by (rule findById_Some_id)
  have sa: "findById (updateById i (set_claimed (u_id a) ta) (foods s)) i =
      Some (set_claimed (u_id a) ta food)"
    by (rule findById_updateById_same [OF f_id_set_claimed assms(1)])
  have st: "status (set_claimed (u_id a) ta food) = Claimed"
    by (simp add: set_claimed_def)
  show ?thesis
    using assms fid sa st
    by (simp add: Notification_create_def Let_def f_id_set_claimed populate_donor_def)
qed

text \<open>
  C3 does not hold of the handler. Two users, neither of them the donor, claim an
  available listing whose donor has an account, and the second request reads the
  listing before the first one has saved it. Both requests then pass the checks. Each
  is answered its own success, the listing with the caller as claimer; the store keeps
  the claimer of the request that saved last, and the donor gets two notifications.
\<close>

theorem claim_race_both_succeed:
  assumes "findById (foods s) i = Some food" and "status food = Available"
    and "donor food \<in> set (accounts s)"
    and "donor food \<noteq> u_id a" and "donor food \<noteq> u_id b"
  shows "\<exists>s'. interleave i (a, ta, ta') (b, tb, tb') [True, False, True, False, True, False]
                 (Start, Start, s) =
               (Done (Inr (set_claimed (u_id a) ta food)),
                Done (Inr (set_claimed (u_id b) tb food)), s') \<and>
              findById (foods s') i = Some (set_claimed (u_id b) tb food) \<and>
              length (notifications s') = length (notifications s) + 2"
proof -
  have fid: "f_id food = i" using assms(1) by (rule findById_Some_id)
  let ?fa = "updateById i (set_claimed (u_id a) ta) (foods s)"
  let ?fb = "updateById i (set_claimed (u_id b) tb) ?fa"
  have sa: "findById ?fa i = Some (set_claimed (u_id a) ta food)"
    using assms(1) by (intro findById_updateById_same) (simp_all add: f_id_set_claimed)
  have sb: "findById ?fb i = Some (set_claimed (u_id b) tb (set_claimed (u_id a) ta food))"
    by (rule findById_updateById_same [OF f_id_set_claimed sa])
  have over: "set_claimed (u_id b) tb (set_claimed (u_id a) ta food) = set_claimed (u_id b) tb food"
    by (simp add: set_claimed_def)
  show ?thesis
    using assms fid sa sb over
    by (simp add: Notification_create_def Let_def f_id_set_claimed populate_donor_def)
qed

theorem claim_race_both_succeed_witness:
  "\<exists>s'. interleave 0 (bob, 2000, 2001) (carol, 2002, 2003)
           [True, False, True, False, True, False] (Start, Start, s_bread) =
         (Done (Inr (bread\<lparr>status := Claimed, claimedBy := Some 2, updatedAt := 2000\<rparr>)),
          Done (Inr (bread\<lparr>status := Claimed, claimedBy := Some 3, updatedAt := 2002\<rparr>)), s') \<and>
        findById (foods s') 0 =
          Some (bread\<lparr>status := Claimed, claimedBy := Some 3, updatedAt := 2002\<rparr>) \<and>
        length (notifications s') = length (notifications s_bread) + 2"
proof -
  have b: "status bread = Available" "donor bread \<in> set (accounts s_bread)"
    "donor bread \<noteq> u_id bob" "donor bread \<noteq> u_id carol"
    by (simp_all add: bread_def bob_def carol_def s_bread_def)
  have u: "u_id bob = 2" "u_id carol = 3"
    by (simp_all add: bob_def carol_def)
  show ?thesis
    using claim_race_both_succeed [OF findById_s_bread b, of 2000 2001 2002 2003]
    unfolding set_claimed_def u by simp
qed

end
